theory Spec2Isabelle
  imports Complex_Main "HOL-Library.Multiset"
begin

section \<open>The drag-to-reorder engine of the Apple Home dashboard\<close>

text \<open>
  A shallow embedding of \<^verbatim>\<open>DragAndDropManager.ts\<close>, of the two listener
  registries (\<^verbatim>\<open>DashboardStateManager.notifyListeners\<close>,
  \<^verbatim>\<open>RegistrySubscriptionManager.notifyListeners\<close>) and of
  \<^verbatim>\<open>AppleChips.applySavedChipsOrder\<close>.

  Conventions of the embedding:
  \<^item> a JavaScript value that may be \<^verbatim>\<open>undefined\<close> or \<^verbatim>\<open>null\<close> is an
    \<open>option\<close>; a string is truthy when it is present and not empty;
  \<^item> JavaScript numbers are modelled as \<open>real\<close> (the arithmetic of the auto-scroll
    is linear interpolation; rounding of doubles is not modelled);
  \<^item> a \<^verbatim>\<open>classList\<close> is the list of its class names;
  \<^item> mutation of the document, of the static fields and of a manager's fields is
    explicit state passing;
  \<^item> calls that leave the engine (the persistence callbacks, the camera reload hook,
    the vibration API) are appended to logs kept in the state.
\<close>

subsection \<open>JavaScript values\<close>

definition truthy :: "string option \<Rightarrow> bool" where
  "truthy v = (case v of None \<Rightarrow> False | Some s \<Rightarrow> s \<noteq> [])"

text \<open>The operator \<^verbatim>\<open>a || b\<close> on strings that may be undefined.\<close>

definition js_or :: "string option \<Rightarrow> string option \<Rightarrow> string option" where
  "js_or a b = (if truthy a then a else b)"

subsection \<open>AppleChips.applySavedChipsOrder\<close>

record ChipData =
  group :: string
  icon :: string
  groupName :: string
  statusText :: string
  iconColor :: string
  backgroundColor :: string
  textColor :: string
  enabled :: bool
  navigationPath :: "string option"

text \<open>
  \<^verbatim>\<open>chips.forEach(chip => chipMap.set(chip.group, chip))\<close>: a later chip of the
  same group replaces an earlier one.
\<close>

definition chipMap_of :: "ChipData list \<Rightarrow> (string \<rightharpoonup> ChipData)" where
  "chipMap_of chips = fold (\<lambda>chip m. m(group chip \<mapsto> chip)) chips Map.empty"

text \<open>
  The body of the first loop, over the saved order: the state is the pair of
  \<^verbatim>\<open>orderedChips\<close> and \<^verbatim>\<open>usedGroups\<close>.
\<close>

definition push_saved ::
  "(string \<rightharpoonup> ChipData) \<Rightarrow> string \<Rightarrow> ChipData list \<times> string set \<Rightarrow> ChipData list \<times> string set" where
  "push_saved chipMap g acc =
     (case chipMap g of
        Some c \<Rightarrow> (fst acc @ [c], insert g (snd acc))
      | None \<Rightarrow> acc)"

text \<open>The body of the second loop, over the chips.\<close>

definition push_unused :: "string set \<Rightarrow> ChipData \<Rightarrow> ChipData list \<Rightarrow> ChipData list" where
  "push_unused usedGroups chip orderedChips =
     (if group chip \<in> usedGroups then orderedChips else orderedChips @ [chip])"

text \<open>
  The first argument is what \<^verbatim>\<open>customizationManager.getSavedChipsOrder()\<close> returns,
  \<open>None\<close> when the component has no customization manager.
\<close>

definition applySavedChipsOrder :: "string list option \<Rightarrow> ChipData list \<Rightarrow> ChipData list" where
  "applySavedChipsOrder customizationManager chips =
     (case customizationManager of
        None \<Rightarrow> chips
      | Some savedOrder \<Rightarrow>
          if length savedOrder = 0 then chips
          else
            let chipMap = chipMap_of chips;
                st = fold (push_saved chipMap) savedOrder ([], {})
            in fold (push_unused (snd st)) chips (fst st))"

text \<open>
  The order the claim describes: the chips of the saved groups in saved-order sequence,
  then the remaining chips in their original relative order.
\<close>

definition saved_then_rest :: "string list \<Rightarrow> ChipData list \<Rightarrow> ChipData list" where
  "saved_then_rest savedOrder chips =
     concat (map (\<lambda>g. filter (\<lambda>c. group c = g) chips) savedOrder)
     @ filter (\<lambda>c. group c \<notin> set savedOrder) chips"

text \<open>A chip of the given group; the other fields are fixed.\<close>

definition chip_of :: "string \<Rightarrow> ChipData" where
  "chip_of g = \<lparr>group = g, icon = ''mdi:help'', groupName = g, statusText = ''0 On'',
     iconColor = ''#fff'', backgroundColor = ''#000'', textColor = ''#ffffff'',
     enabled = True, navigationPath = Some g\<rparr>"

subsection \<open>Listener registries: notifyListeners\<close>
















datatype registry_type = Entity | Device | Area | Entity_state

datatype registry_action = Create | Update | Remove









subsection \<open>The DOM the manager reads and changes\<close>

text \<open>
  The inner card in the shadow root of an \<^verbatim>\<open>apple-home-card\<close>: the images of its
  \<^verbatim>\<open>.camera-container\<close> (computed opacity and \<^verbatim>\<open>src\<close>) when it has one, its two
  camera icons, and the text of its \<^verbatim>\<open>.entity-name\<close>.
\<close>

record inner_card =
  cameraContainer :: "(string \<times> string) list option"
  cameraIconUnavailable :: bool
  cameraIconNoSnapshot :: bool
  entityName :: "string option"

text \<open>
  An \<^verbatim>\<open>apple-home-card\<close> element. \<open>shadowRoot\<close> is \<open>None\<close> without a shadow root
  and \<open>Some None\<close> when the shadow root holds no \<^verbatim>\<open>.apple-home-card\<close>.
\<close>

record apple_home_card =
  entity :: "string option"
  entityId :: "string option"
  entity_attribute :: "string option"
  reloadCameraImage :: bool
  shadowRoot :: "inner_card option option"

text \<open>
  A child of a container (an entity card wrapper, a chip wrapper, or a node the sensing
  library added): its class list, its \<^verbatim>\<open>data-chip-id\<close> and \<^verbatim>\<open>data-entity-id\<close>,
  its \<^verbatim>\<open>apple-home-card\<close> and \<^verbatim>\<open>.chip\<close> descendants, the inline
  \<^verbatim>\<open>style.visibility\<close> of each of its \<^verbatim>\<open>.entity-controls\<close> descendants, and its
  bounding rectangle.
\<close>

record element =
  classList :: "string list"
  data_chipId :: "string option"
  data_entityId :: "string option"
  home_card :: "apple_home_card option"
  chip_child :: bool
  entity_controls :: "string list"
  rect_width :: real
  rect_height :: real

text \<open>
  A container, or one of its ancestors: class list, \<^verbatim>\<open>data-area-id\<close>,
  \<^verbatim>\<open>data-section-type\<close> and the elements below it in document order.
\<close>

record container =
  container_classList :: "string list"
  data_areaId :: "string option"
  data_sectionType :: "string option"
  children :: "element list"

definition has_class :: "string \<Rightarrow> container \<Rightarrow> bool" where
  "has_class cls c = (cls \<in> set (container_classList c))"

text \<open>\<^verbatim>\<open>c.querySelectorAll('.' + cls)\<close> over the elements of a container.\<close>

definition querySelectorAll :: "string \<Rightarrow> container \<Rightarrow> element list" where
  "querySelectorAll cls c = filter (\<lambda>e. cls \<in> set (classList e)) (children c)"

text \<open>What the floating clone shows.\<close>

datatype camera_frame = Snapshot string | Placeholder string | NoFrame

datatype clone_source = FromInnerCard | FromChip | FromWrapper

datatype visual_content =
    Nothing
  | CameraVisual camera_frame "string option"
  | StyledClone clone_source
  | GreyBackground

text \<open>
  A node appended to \<^verbatim>\<open>document.body\<close> by \<^verbatim>\<open>createDragVisual\<close>. Its size
  and position are kept as exact numbers, without the rounding of doubles; no fact of this
  development reads them.
\<close>

record clone =
  node :: nat
  clone_classList :: "string list"
  style_width :: real
  style_height :: real
  style_left :: real
  style_top :: real
  content :: visual_content

datatype persist_call =
    SaveOrder string
  | UpdateCarouselOrderWithContext string string "string list" string
  | SaveChipsOrder "string list"

text \<open>
  Everything that is process-wide: the two static fields of the class, the document
  (the ids of the style elements in \<^verbatim>\<open>document.head\<close>, the clones in
  \<^verbatim>\<open>document.body\<close>, the listeners on \<^verbatim>\<open>document\<close> as pairs of event type and
  handler identity, \<^verbatim>\<open>document.body.style.userSelect\<close>, the number of nodes created
  so far), and the calls that leave the engine (vibration, camera reload by item index,
  persistence).
\<close>

record process =
  globalStylesInjected :: bool
  isReordering :: bool
  head :: "string list"
  body :: "clone list"
  document_listeners :: "(string \<times> nat) list"
  userSelect :: string
  created :: nat
  canVibrate :: bool
  vibrated :: "nat list"
  reloaded :: "nat list"
  persisted :: "persist_call list"

datatype sortable = GridSortable | CarouselSortable | ChipsSortable

text \<open>
  The fields of one \<^verbatim>\<open>DragAndDropManager\<close>: \<open>dragVisual\<close> refers to a clone by
  its node, \<open>customizationManager\<close> says whether one was given to the constructor, and
  \<open>sortableInstances\<close> maps a container (by identity) to the instance attached to it.
  The host's \<^verbatim>\<open>saveOrderCallback\<close> is the log entry \<open>SaveOrder\<close>.
\<close>

record manager =
  dragVisual :: "nat option"
  customizationManager :: bool
  context_name :: string
  sortableInstances :: "nat \<rightharpoonup> sortable"

subsection \<open>Construction and global styles\<close>

definition injectGlobalStyles :: "process \<Rightarrow> process" where
  "injectGlobalStyles p =
     (if globalStylesInjected p then p
      else p\<lparr>head := head p @ [''sortable-drag-styles''], globalStylesInjected := True\<rparr>)"

definition constructor :: "bool \<Rightarrow> string \<Rightarrow> process \<Rightarrow> manager \<times> process" where
  "constructor customization ctx p =
     (\<lparr>dragVisual = None, customizationManager = customization, context_name = ctx,
       sortableInstances = Map.empty\<rparr>,
      injectGlobalStyles p)"

text \<open>
  What \<^verbatim>\<open>enableDragAndDrop(container)\<close> finds under its argument: the grid
  containers, the carousel grids that are not chips, whether the argument has the class
  \<^verbatim>\<open>permanent-chips\<close>, and its \<^verbatim>\<open>.chips-grid\<close>.
\<close>

record dom_root =
  gridContainers :: "nat list"
  carouselContainers :: "nat list"
  permanent_chips :: bool
  chips_grid :: "nat option"

definition set_instance :: "sortable \<Rightarrow> nat \<Rightarrow> manager \<Rightarrow> manager" where
  "set_instance inst el m = m\<lparr>sortableInstances := (sortableInstances m)(el \<mapsto> inst)\<rparr>"

definition enableChipsCarousel :: "dom_root \<Rightarrow> manager \<Rightarrow> manager" where
  "enableChipsCarousel found m =
     (case chips_grid found of None \<Rightarrow> m | Some el \<Rightarrow> set_instance ChipsSortable el m)"

definition enableDragAndDrop :: "dom_root \<Rightarrow> manager \<Rightarrow> manager" where
  "enableDragAndDrop found m =
     (let m1 = fold (set_instance GridSortable) (gridContainers found) m;
          m2 = fold (set_instance CarouselSortable) (carouselContainers found) m1
      in if permanent_chips found then enableChipsCarousel found m2 else m2)"

text \<open>The host constructs managers and attaches containers, in any order.\<close>

datatype host_call = Construct bool string | Attach nat dom_root

fun host_step :: "host_call \<Rightarrow> manager list \<times> process \<Rightarrow> manager list \<times> process" where
  "host_step (Construct customization ctx) (ms, p) =
     (ms @ [fst (constructor customization ctx p)], snd (constructor customization ctx p))"
| "host_step (Attach i found) (ms, p) =
     ((if i < length ms then ms[i := enableDragAndDrop found (ms ! i)] else ms), p)"

definition host_run :: "host_call list \<Rightarrow> manager list \<times> process \<Rightarrow> manager list \<times> process" where
  "host_run calls s = fold host_step calls s"

fun is_construct :: "host_call \<Rightarrow> bool" where
  "is_construct (Construct customization ctx) = True"
| "is_construct (Attach i found) = False"

definition style_count :: "process \<Rightarrow> nat" where
  "style_count p = length (filter (\<lambda>i. i = ''sortable-drag-styles'') (head p))"

text \<open>The process before any manager exists.\<close>

definition fresh_process :: process where
  "fresh_process =
     \<lparr>globalStylesInjected = False, isReordering = False, head = [], body = [],
      document_listeners = [], userSelect = [], created = 0, canVibrate = True,
      vibrated = [], reloaded = [], persisted = []\<rparr>"

subsection \<open>The drag visual\<close>

definition removeDragVisual :: "manager \<times> process \<Rightarrow> manager \<times> process" where
  "removeDragVisual mp =
     (case mp of (m, p) \<Rightarrow>
        (m\<lparr>dragVisual := None\<rparr>,
         (case dragVisual m of
            None \<Rightarrow> p
          | Some i \<Rightarrow>
              if i \<in> set (map node (body p))
              then p\<lparr>body := filter (\<lambda>n. node n \<noteq> i) (body p)\<rparr>
              else p)))"

definition createCameraDragVisual :: "inner_card \<Rightarrow> visual_content" where
  "createCameraDragVisual innerCard =
     CameraVisual
       (case cameraContainer innerCard of
          Some images \<Rightarrow>
            (case find (\<lambda>img. fst img \<noteq> ''0'' \<and> snd img \<noteq> []) images of
               Some img \<Rightarrow> Snapshot (snd img)
             | None \<Rightarrow> Placeholder ''mdi:camera'')
        | None \<Rightarrow>
            if cameraIconUnavailable innerCard then Placeholder ''mdi:camera-off''
            else if cameraIconNoSnapshot innerCard then Placeholder ''mdi:camera''
            else NoFrame)
       (entityName innerCard)"

definition card_shadowRoot :: "element \<Rightarrow> inner_card option option" where
  "card_shadowRoot el = (case home_card el of None \<Rightarrow> None | Some appleHomeCard \<Rightarrow> shadowRoot appleHomeCard)"

definition visual_content_of :: "element \<Rightarrow> bool \<Rightarrow> visual_content" where
  "visual_content_of el isChip =
     (case card_shadowRoot el of
        Some found \<Rightarrow>
          (case found of
             None \<Rightarrow> Nothing
           | Some innerCard \<Rightarrow>
               if cameraContainer innerCard \<noteq> None \<or> cameraIconUnavailable innerCard
                  \<or> cameraIconNoSnapshot innerCard
               then createCameraDragVisual innerCard
               else StyledClone FromInnerCard)
      | None \<Rightarrow>
          if isChip then (if chip_child el then StyledClone FromChip else StyledClone FromWrapper)
          else GreyBackground)"

definition createDragVisual :: "element \<Rightarrow> real \<Rightarrow> real \<Rightarrow> bool \<Rightarrow> manager \<times> process \<Rightarrow> manager \<times> process" where
  "createDragVisual el x y isChip mp =
     (case removeDragVisual mp of (m, p) \<Rightarrow>
        (m\<lparr>dragVisual := Some (created p)\<rparr>,
         p\<lparr>created := created p + 1,
           body := body p @
             [\<lparr>node = created p,
               clone_classList = ''drag-visual-clone'' # (if isChip then [''chip''] else []),
               style_width = rect_width el,
               style_height = rect_height el,
               style_left = x - rect_width el / 2,
               style_top = y - rect_height el / 2,
               content = visual_content_of el isChip\<rparr>]\<rparr>))"

text \<open>
  \<^verbatim>\<open>updateDragVisual(x, y)\<close>; the clone's \<^verbatim>\<open>offsetWidth\<close> and
  \<^verbatim>\<open>offsetHeight\<close> are taken to be the width and height it was given.
\<close>

definition move_clone :: "real \<Rightarrow> real \<Rightarrow> clone \<Rightarrow> clone" where
  "move_clone x y n = n\<lparr>style_left := x - style_width n / 2, style_top := y - style_height n / 2\<rparr>"

definition updateDragVisual :: "real \<Rightarrow> real \<Rightarrow> manager \<times> process \<Rightarrow> manager \<times> process" where
  "updateDragVisual x y mp =
     (case mp of (m, p) \<Rightarrow>
        (case dragVisual m of
           None \<Rightarrow> (m, p)
         | Some i \<Rightarrow> (m, p\<lparr>body := map (\<lambda>n. if node n = i then move_clone x y n else n) (body p)\<rparr>)))"

definition clone_count :: "process \<Rightarrow> nat" where
  "clone_count p = length (filter (\<lambda>n. ''drag-visual-clone'' \<in> set (clone_classList n)) (body p))"

text \<open>The calls one manager makes on its drag visual, in any order.\<close>

datatype visual_call = CreateVisual element real real bool | UpdateVisual real real | RemoveVisual

fun visual_step :: "visual_call \<Rightarrow> manager \<times> process \<Rightarrow> manager \<times> process" where
  "visual_step (CreateVisual el x y isChip) mp = createDragVisual el x y isChip mp"
| "visual_step (UpdateVisual x y) mp = updateDragVisual x y mp"
| "visual_step RemoveVisual mp = removeDragVisual mp"

text \<open>
  Several managers share one document. A call of the manager at position \<open>i\<close> works on
  that manager's own \<^verbatim>\<open>dragVisual\<close> field and on the shared document.
\<close>

definition shared_step :: "nat \<times> visual_call \<Rightarrow> manager list \<times> process \<Rightarrow> manager list \<times> process" where
  "shared_step ic s =
     (case ic of (i, c) \<Rightarrow>
        (case s of (ms, p) \<Rightarrow>
           if i < length ms
           then (case visual_step c (ms ! i, p) of (m', p') \<Rightarrow> (ms[i := m'], p'))
           else (ms, p)))"

definition shared_run :: "(nat \<times> visual_call) list \<Rightarrow> manager list \<times> process \<Rightarrow> manager list \<times> process" where
  "shared_run calls s = fold shared_step calls s"

text \<open>The clones in the document that a manager refers to, and the managers that refer to a clone.\<close>

definition own_clones :: "manager \<Rightarrow> process \<Rightarrow> clone list" where
  "own_clones m p = filter (\<lambda>n. dragVisual m = Some (node n)) (body p)"

definition owners :: "clone \<Rightarrow> manager list \<Rightarrow> manager list" where
  "owners n ms = filter (\<lambda>m. dragVisual m = Some (node n)) ms"

text \<open>The references the managers hold.\<close>

definition references :: "manager list \<Rightarrow> nat list" where
  "references ms = concat (map (\<lambda>m. case dragVisual m of None \<Rightarrow> [] | Some i \<Rightarrow> [i]) ms)"

text \<open>
  The managers' references and the document agree: no two managers refer to the same
  node, the nodes in the body are the ones referred to, each once, they are nodes created
  so far, and they carry the class of a clone.
\<close>

definition attached :: "manager list \<times> process \<Rightarrow> bool" where
  "attached s =
     (case s of (ms, p) \<Rightarrow>
        distinct (references ms) \<and> distinct (map node (body p))
        \<and> set (references ms) = set (map node (body p))
        \<and> list_all (\<lambda>n. node n < created p \<and> ''drag-visual-clone'' \<in> set (clone_classList n)) (body p))"

text \<open>Two managers constructed one after the other in a fresh process.\<close>

definition two_managers :: "manager list \<times> process" where
  "two_managers =
     (let home = constructor True ''home'' fresh_process;
          room = constructor True ''room'' (snd home)
      in ([fst home, fst room], snd room))"

subsection \<open>Edge auto-scroll\<close>



definition exact :: "real \<Rightarrow> real" where
  "exact t = t"

text \<open>
  The scrollable ancestor: the left and right edge of its bounding rectangle and its
  scroll metrics.
\<close>

record scroll_container =
  rect_left :: real
  rect_right :: real
  scrollWidth :: real
  clientWidth :: real
  scrollLeft :: real

text \<open>
  The variables the scroll closures share: the speed (\<^verbatim>\<open>currentScrollSpeed\<close> in the
  carousel, \<^verbatim>\<open>scrollSpeed\<close> in the chip row), \<^verbatim>\<open>scrollAnimationId\<close>, and the
  number of animation frames requested so far (a request returns the next number, which
  is never 0) and cancelled.
\<close>

record scroll_vars =
  speed :: real
  scrollAnimationId :: "nat option"
  requested :: nat
  cancelled :: "nat list"

definition requestAnimationFrame :: "scroll_vars \<Rightarrow> scroll_vars" where
  "requestAnimationFrame v = v\<lparr>scrollAnimationId := Some (requested v + 1), requested := requested v + 1\<rparr>"

text \<open>The truth value of \<^verbatim>\<open>scrollAnimationId\<close> in a condition.\<close>

definition id_truthy :: "nat option \<Rightarrow> bool" where
  "id_truthy i = (case i of None \<Rightarrow> False | Some n \<Rightarrow> n \<noteq> 0)"

text \<open>The candidate speed of the carousel: zone 100, speeds from 3 to 15.\<close>

definition carousel_newSpeed :: "(real \<Rightarrow> real) \<Rightarrow> scroll_container \<Rightarrow> real \<Rightarrow> real" where
  "carousel_newSpeed rnd sc x =
     (let maxScroll = rnd (scrollWidth sc - clientWidth sc);
          currentScroll = scrollLeft sc;
          scrollZone = 100;
          maxSpeed = 15;
          minSpeed = 3;
          distFromLeft = rnd (x - rect_left sc);
          distFromRight = rnd (rect_right sc - x);
          canScrollLeft = (currentScroll > 0);
          canScrollRight = (currentScroll < maxScroll)
      in if distFromLeft < scrollZone \<and> distFromLeft \<ge> 0 \<and> canScrollLeft
         then (let ratio = rnd (1 - rnd (distFromLeft / scrollZone))
               in - rnd (minSpeed + rnd (ratio * rnd (maxSpeed - minSpeed))))
         else if distFromRight < scrollZone \<and> distFromRight \<ge> 0 \<and> canScrollRight
         then (let ratio = rnd (1 - rnd (distFromRight / scrollZone))
               in rnd (minSpeed + rnd (ratio * rnd (maxSpeed - minSpeed))))
         else 0)"

definition carousel_updateScrollSpeed ::
  "(real \<Rightarrow> real) \<Rightarrow> scroll_container option \<Rightarrow> real \<Rightarrow> scroll_vars \<Rightarrow> scroll_vars" where
  "carousel_updateScrollSpeed rnd scrollContainer x v =
     (case scrollContainer of
        None \<Rightarrow> v
      | Some sc \<Rightarrow>
          let newSpeed = carousel_newSpeed rnd sc x
          in if \<bar>rnd (newSpeed - speed v)\<bar> > 0.5 \<or> (newSpeed = 0 \<and> speed v \<noteq> 0)
             then (let v1 = v\<lparr>speed := newSpeed\<rparr>
                   in if speed v1 \<noteq> 0 \<and> scrollAnimationId v1 = None
                      then requestAnimationFrame v1 else v1)
             else v)"

text \<open>The speed of the chip row: zone 80, speeds from 2 to 12.\<close>

definition chips_newSpeed :: "(real \<Rightarrow> real) \<Rightarrow> scroll_container \<Rightarrow> real \<Rightarrow> real" where
  "chips_newSpeed rnd sc x =
     (let maxScroll = rnd (scrollWidth sc - clientWidth sc);
          currentScroll = scrollLeft sc;
          scrollZone = 80;
          maxSpeed = 12;
          minSpeed = 2;
          distFromLeft = rnd (x - rect_left sc);
          distFromRight = rnd (rect_right sc - x);
          canScrollLeft = (currentScroll > 0);
          canScrollRight = (currentScroll < maxScroll)
      in if distFromLeft < scrollZone \<and> distFromLeft \<ge> 0 \<and> canScrollLeft
         then (let ratio = rnd (1 - rnd (distFromLeft / scrollZone))
               in - rnd (minSpeed + rnd (ratio * rnd (maxSpeed - minSpeed))))
         else if distFromRight < scrollZone \<and> distFromRight \<ge> 0 \<and> canScrollRight
         then (let ratio = rnd (1 - rnd (distFromRight / scrollZone))
               in rnd (minSpeed + rnd (ratio * rnd (maxSpeed - minSpeed))))
         else 0)"

definition chips_updateScrollSpeed ::
  "(real \<Rightarrow> real) \<Rightarrow> scroll_container option \<Rightarrow> real \<Rightarrow> scroll_vars \<Rightarrow> scroll_vars" where
  "chips_updateScrollSpeed rnd scrollContainer x v =
     (case scrollContainer of
        None \<Rightarrow> v
      | Some sc \<Rightarrow>
          let v1 = v\<lparr>speed := chips_newSpeed rnd sc x\<rparr>
          in if speed v1 \<noteq> 0 \<and> \<not> id_truthy (scrollAnimationId v1)
             then requestAnimationFrame v1 else v1)"

text \<open>\<^verbatim>\<open>stopScrolling\<close>, the same in both closures.\<close>

definition stopScrolling :: "scroll_vars \<Rightarrow> scroll_vars" where
  "stopScrolling v =
     (let v1 = v\<lparr>speed := 0\<rparr>
      in if id_truthy (scrollAnimationId v1)
         then (case scrollAnimationId v1 of
                 Some i \<Rightarrow> v1\<lparr>cancelled := cancelled v1 @ [i], scrollAnimationId := None\<rparr>
               | None \<Rightarrow> v1)
         else v1)"

text \<open>
  The two edge zones of a scroll container, as the conditions of the source read: on the
  distances the source computes.
\<close>

definition in_left_zone :: "(real \<Rightarrow> real) \<Rightarrow> real \<Rightarrow> scroll_container \<Rightarrow> real \<Rightarrow> bool" where
  "in_left_zone rnd zone sc x = (rnd (x - rect_left sc) < zone \<and> rnd (x - rect_left sc) \<ge> 0)"

definition in_right_zone :: "(real \<Rightarrow> real) \<Rightarrow> real \<Rightarrow> scroll_container \<Rightarrow> real \<Rightarrow> bool" where
  "in_right_zone rnd zone sc x = (rnd (rect_right sc - x) < zone \<and> rnd (rect_right sc - x) \<ge> 0)"

definition canScrollLeft :: "scroll_container \<Rightarrow> bool" where
  "canScrollLeft sc = (scrollLeft sc > 0)"

definition canScrollRight :: "(real \<Rightarrow> real) \<Rightarrow> scroll_container \<Rightarrow> bool" where
  "canScrollRight rnd sc = (scrollLeft sc < rnd (scrollWidth sc - clientWidth sc))"

text \<open>
  The magnitude both closures compute in a zone from the distance \<open>d\<close> to the edge,
  operation by operation.
\<close>

definition interpolated :: "(real \<Rightarrow> real) \<Rightarrow> real \<Rightarrow> real \<Rightarrow> real \<Rightarrow> real \<Rightarrow> real" where
  "interpolated rnd zone minSpeed maxSpeed d =
     rnd (minSpeed + rnd (rnd (1 - rnd (d / zone)) * rnd (maxSpeed - minSpeed)))"

text \<open>
  Linear interpolation from the minimum speed at distance \<open>zone\<close> to the maximum speed
  at distance 0.
\<close>

definition ramp :: "real \<Rightarrow> real \<Rightarrow> real \<Rightarrow> real \<Rightarrow> real" where
  "ramp zone minSpeed maxSpeed d = maxSpeed - (maxSpeed - minSpeed) * (d / zone)"

subsection \<open>Drag sessions\<close>

text \<open>
  The event the sensing library passes to \<^verbatim>\<open>onStart\<close> and \<^verbatim>\<open>onEnd\<close>: the
  dragged item (its index among the container's elements when the event is delivered),
  the original pointer event, and the indices of the item before and after the drag.
\<close>

datatype original_event = TouchEvent "(real \<times> real) list" | MouseEvent real real

record sortable_event =
  item :: nat
  originalEvent :: "original_event option"
  oldIndex :: nat
  newIndex :: nat

text \<open>A pointer move delivered to the \<^verbatim>\<open>onMove\<close> listener on the document.\<close>

datatype move_event = TouchMove real real | MouseMove real real

text \<open>
  What one \<^verbatim>\<open>setup...Sortable\<close> call closes over: the container and its ancestors
  (nearest first), the \<^verbatim>\<open>areaId\<close> read at setup (grids), the identity of the
  \<^verbatim>\<open>onMove\<close> function, the last pointer position, the scrollable ancestor and the
  scroll variables (carousels and chip rows).
\<close>

record closure =
  cont :: container
  outer :: "container list"
  areaId :: "string option"
  onMove :: nat
  lastX :: real
  lastY :: real
  scrollContainer :: "scroll_container option"
  scroll :: scroll_vars

text \<open>
  What a handler of a session works on: the closure it belongs to, the manager that set it
  up, and the process.
\<close>

record world =
  clo :: closure
  mgr :: manager
  proc :: process

definition idle_scroll :: scroll_vars where
  "idle_scroll = \<lparr>speed = 0, scrollAnimationId = None, requested = 0, cancelled = []\<rparr>"

definition setupGridSortable :: "nat \<Rightarrow> container \<Rightarrow> container list \<Rightarrow> closure" where
  "setupGridSortable handler gridContainer ancestors =
     \<lparr>cont = gridContainer, outer = ancestors, areaId = data_areaId gridContainer,
      onMove = handler, lastX = 0, lastY = 0, scrollContainer = None, scroll = idle_scroll\<rparr>"

definition setupCarouselSortable ::
  "nat \<Rightarrow> container \<Rightarrow> container list \<Rightarrow> scroll_container option \<Rightarrow> closure" where
  "setupCarouselSortable handler carouselGrid ancestors scrollable =
     \<lparr>cont = carouselGrid, outer = ancestors, areaId = None,
      onMove = handler, lastX = 0, lastY = 0, scrollContainer = scrollable, scroll = idle_scroll\<rparr>"

text \<open>The closure of \<^verbatim>\<open>enableChipsCarousel\<close>, over the \<^verbatim>\<open>.chips-grid\<close>.\<close>

definition setupChipsSortable ::
  "nat \<Rightarrow> container \<Rightarrow> container list \<Rightarrow> scroll_container option \<Rightarrow> closure" where
  "setupChipsSortable handler chipsCarousel ancestors scrollable =
     \<lparr>cont = chipsCarousel, outer = ancestors, areaId = None,
      onMove = handler, lastX = 0, lastY = 0, scrollContainer = scrollable, scroll = idle_scroll\<rparr>"

text \<open>The statements of a handler run in sequence.\<close>

definition run :: "('s \<Rightarrow> 's) list \<Rightarrow> 's \<Rightarrow> 's" where
  "run stmts s = fold (\<lambda>stmt. stmt) stmts s"

definition set_isReordering :: "bool \<Rightarrow> world \<Rightarrow> world" where
  "set_isReordering b w = w\<lparr>proc := (proc w)\<lparr>isReordering := b\<rparr>\<rparr>"

definition update_item :: "nat \<Rightarrow> (element \<Rightarrow> element) \<Rightarrow> world \<Rightarrow> world" where
  "update_item i f w =
     w\<lparr>clo := (clo w)\<lparr>cont := (cont (clo w))\<lparr>children :=
          (if i < length (children (cont (clo w)))
           then (children (cont (clo w)))[i := f (children (cont (clo w)) ! i)]
           else children (cont (clo w)))\<rparr>\<rparr>\<rparr>"

text \<open>\<^verbatim>\<open>evt.item.classList.add(cls)\<close> and \<^verbatim>\<open>evt.item.classList.remove(cls)\<close>\<close>

definition classList_add :: "sortable_event \<Rightarrow> string \<Rightarrow> world \<Rightarrow> world" where
  "classList_add evt cls =
     update_item (item evt)
       (\<lambda>e. if cls \<in> set (classList e) then e else e\<lparr>classList := classList e @ [cls]\<rparr>)"

definition classList_remove :: "sortable_event \<Rightarrow> string \<Rightarrow> world \<Rightarrow> world" where
  "classList_remove evt cls =
     update_item (item evt) (\<lambda>e. e\<lparr>classList := removeAll cls (classList e)\<rparr>)"

text \<open>
  \<^verbatim>\<open>container.querySelectorAll('.entity-controls').forEach(ctrl => ctrl.style.visibility = v)\<close>
\<close>

definition set_controls_visibility :: "string \<Rightarrow> world \<Rightarrow> world" where
  "set_controls_visibility v w =
     w\<lparr>clo := (clo w)\<lparr>cont := (cont (clo w))\<lparr>children :=
          map (\<lambda>e. e\<lparr>entity_controls := map (\<lambda>ctrl. v) (entity_controls e)\<rparr>)
            (children (cont (clo w)))\<rparr>\<rparr>\<rparr>"

text \<open>
  \<^verbatim>\<open>touch?.clientX ?? mouse?.clientX ?? 0\<close>, where \<^verbatim>\<open>touch\<close> is the first touch of
  the original event and \<^verbatim>\<open>mouse\<close> the original event itself.
\<close>

definition start_position :: "original_event option \<Rightarrow> real \<times> real" where
  "start_position ev =
     (case ev of
        None \<Rightarrow> (0, 0)
      | Some (TouchEvent touches) \<Rightarrow> (case touches of [] \<Rightarrow> (0, 0) | t # ts \<Rightarrow> t)
      | Some (MouseEvent x y) \<Rightarrow> (x, y))"

definition read_start_position :: "sortable_event \<Rightarrow> world \<Rightarrow> world" where
  "read_start_position evt w =
     w\<lparr>clo := (clo w)\<lparr>lastX := fst (start_position (originalEvent evt)),
                       lastY := snd (start_position (originalEvent evt))\<rparr>\<rparr>"

text \<open>A call of a method of the manager that works on its drag visual.\<close>

definition on_visual :: "(manager \<times> process \<Rightarrow> manager \<times> process) \<Rightarrow> world \<Rightarrow> world" where
  "on_visual f w = w\<lparr>mgr := fst (f (mgr w, proc w)), proc := snd (f (mgr w, proc w))\<rparr>"

definition create_visual_for_item :: "sortable_event \<Rightarrow> bool \<Rightarrow> world \<Rightarrow> world" where
  "create_visual_for_item evt isChip w =
     on_visual (createDragVisual (children (cont (clo w)) ! item evt)
                  (lastX (clo w)) (lastY (clo w)) isChip) w"

definition addEventListener :: "string \<Rightarrow> world \<Rightarrow> world" where
  "addEventListener event_type w =
     (if (event_type, onMove (clo w)) \<in> set (document_listeners (proc w)) then w
      else w\<lparr>proc := (proc w)\<lparr>document_listeners :=
             document_listeners (proc w) @ [(event_type, onMove (clo w))]\<rparr>\<rparr>)"

definition removeEventListener :: "string \<Rightarrow> world \<Rightarrow> world" where
  "removeEventListener event_type w =
     w\<lparr>proc := (proc w)\<lparr>document_listeners :=
          removeAll (event_type, onMove (clo w)) (document_listeners (proc w))\<rparr>\<rparr>"

text \<open>\<^verbatim>\<open>if ('vibrate' in navigator) navigator.vibrate(ms)\<close>\<close>

definition vibrate :: "nat \<Rightarrow> world \<Rightarrow> world" where
  "vibrate ms w =
     (if canVibrate (proc w) then w\<lparr>proc := (proc w)\<lparr>vibrated := vibrated (proc w) @ [ms]\<rparr>\<rparr> else w)"

definition set_userSelect :: "string \<Rightarrow> world \<Rightarrow> world" where
  "set_userSelect v w = w\<lparr>proc := (proc w)\<lparr>userSelect := v\<rparr>\<rparr>"

definition reconnectSingleCameraManager :: "sortable_event \<Rightarrow> world \<Rightarrow> world" where
  "reconnectSingleCameraManager evt w =
     (case home_card (children (cont (clo w)) ! item evt) of
        None \<Rightarrow> w
      | Some appleHomeCard \<Rightarrow>
          if reloadCameraImage appleHomeCard
          then w\<lparr>proc := (proc w)\<lparr>reloaded := reloaded (proc w) @ [item evt]\<rparr>\<rparr>
          else w)"

definition persist :: "persist_call \<Rightarrow> world \<Rightarrow> world" where
  "persist c w = w\<lparr>proc := (proc w)\<lparr>persisted := persisted (proc w) @ [c]\<rparr>\<rparr>"

definition stop_scrolling :: "world \<Rightarrow> world" where
  "stop_scrolling w = w\<lparr>clo := (clo w)\<lparr>scroll := stopScrolling (scroll (clo w))\<rparr>\<rparr>"

subsubsection \<open>Grid containers\<close>

definition grid_onStart :: "sortable_event \<Rightarrow> world \<Rightarrow> world" where
  "grid_onStart evt =
     run [set_isReordering True,
          classList_add evt ''dragging'',
          set_controls_visibility ''hidden'',
          read_start_position evt,
          create_visual_for_item evt False,
          addEventListener ''mousemove'',
          addEventListener ''touchmove'',
          vibrate 50,
          set_userSelect ''none'']"

definition save_if_area :: "world \<Rightarrow> world" where
  "save_if_area w =
     (case areaId (clo w) of
        None \<Rightarrow> w
      | Some a \<Rightarrow> if a \<noteq> [] then persist (SaveOrder a) w else w)"

definition grid_onEnd :: "sortable_event \<Rightarrow> world \<Rightarrow> world" where
  "grid_onEnd evt =
     run [set_isReordering False,
          classList_remove evt ''dragging'',
          set_controls_visibility [],
          on_visual removeDragVisual,
          removeEventListener ''mousemove'',
          removeEventListener ''touchmove'',
          set_userSelect [],
          vibrate 30,
          reconnectSingleCameraManager evt,
          save_if_area]"

definition move_position :: "move_event \<Rightarrow> real \<times> real" where
  "move_position e = (case e of TouchMove x y \<Rightarrow> (x, y) | MouseMove x y \<Rightarrow> (x, y))"

definition read_move_position :: "move_event \<Rightarrow> world \<Rightarrow> world" where
  "read_move_position e w =
     w\<lparr>clo := (clo w)\<lparr>lastX := fst (move_position e), lastY := snd (move_position e)\<rparr>\<rparr>"

definition update_visual_to_last :: "world \<Rightarrow> world" where
  "update_visual_to_last w = on_visual (updateDragVisual (lastX (clo w)) (lastY (clo w))) w"

definition grid_onMove :: "move_event \<Rightarrow> world \<Rightarrow> world" where
  "grid_onMove e = run [read_move_position e, update_visual_to_last]"

subsubsection \<open>Carousels\<close>

text \<open>
  \<^verbatim>\<open>evt.item.closest(selector)\<close> for a selector of classes: the nearest of the
  container and its ancestors that has all of them (an item is not itself a grid).
\<close>

definition closest :: "string list \<Rightarrow> world \<Rightarrow> container option" where
  "closest classes w =
     find (\<lambda>c. list_all (\<lambda>cls. has_class cls c) classes) (cont (clo w) # outer (clo w))"

definition entity_id_of :: "element \<Rightarrow> string option" where
  "entity_id_of wrapper =
     (if \<not> truthy (data_entityId wrapper)
      then (case home_card wrapper of
              Some appleHomeCard \<Rightarrow> js_or (entity appleHomeCard) (js_or (entityId appleHomeCard) (entity_attribute appleHomeCard))
            | None \<Rightarrow> data_entityId wrapper)
      else data_entityId wrapper)"

text \<open>\<^verbatim>\<open>if (id) newOrder.push(id)\<close>, for each wrapper.\<close>

definition push_ids :: "(element \<Rightarrow> string option) \<Rightarrow> element list \<Rightarrow> string list" where
  "push_ids read wrappers =
     fold (\<lambda>wrapper newOrder.
             case read wrapper of
               None \<Rightarrow> newOrder
             | Some i \<Rightarrow> if i \<noteq> [] then newOrder @ [i] else newOrder)
       wrappers []"

text \<open>What one wrapper contributes to the new order.\<close>

definition pushed :: "(element \<Rightarrow> string option) \<Rightarrow> element \<Rightarrow> string list" where
  "pushed read wrapper = (case read wrapper of None \<Rightarrow> [] | Some i \<Rightarrow> if i \<noteq> [] then [i] else [])"

definition carousel_order :: "container \<Rightarrow> string list" where
  "carousel_order carousel = push_ids entity_id_of (querySelectorAll ''entity-card-wrapper'' carousel)"

definition updateCarouselConfiguration :: "container \<Rightarrow> world \<Rightarrow> world" where
  "updateCarouselConfiguration carousel w =
     (if \<not> truthy (data_areaId carousel) \<or> \<not> truthy (data_sectionType carousel) then w
      else if customizationManager (mgr w)
      then persist (UpdateCarouselOrderWithContext (the (data_areaId carousel))
                      (the (data_sectionType carousel)) (carousel_order carousel)
                      (context_name (mgr w))) w
      else w)"

definition update_carousel_of_item :: "world \<Rightarrow> world" where
  "update_carousel_of_item w =
     (case closest [''carousel-grid''] w of
        Some carousel \<Rightarrow> updateCarouselConfiguration carousel w
      | None \<Rightarrow> w)"

definition carousel_onStart :: "sortable_event \<Rightarrow> world \<Rightarrow> world" where
  "carousel_onStart evt =
     run [set_isReordering True,
          classList_add evt ''dragging'',
          set_controls_visibility ''hidden'',
          read_start_position evt,
          create_visual_for_item evt False,
          addEventListener ''mousemove'',
          addEventListener ''touchmove'',
          vibrate 50,
          set_userSelect ''none'']"

definition carousel_onEnd :: "sortable_event \<Rightarrow> world \<Rightarrow> world" where
  "carousel_onEnd evt =
     run [classList_remove evt ''dragging'',
          stop_scrolling,
          set_controls_visibility [],
          on_visual removeDragVisual,
          removeEventListener ''mousemove'',
          removeEventListener ''touchmove'',
          set_userSelect [],
          vibrate 30,
          reconnectSingleCameraManager evt,
          update_carousel_of_item]"

definition carousel_update_scroll :: "(real \<Rightarrow> real) \<Rightarrow> world \<Rightarrow> world" where
  "carousel_update_scroll rnd w =
     w\<lparr>clo := (clo w)\<lparr>scroll :=
          carousel_updateScrollSpeed rnd (scrollContainer (clo w)) (lastX (clo w)) (scroll (clo w))\<rparr>\<rparr>"

definition carousel_onMove :: "(real \<Rightarrow> real) \<Rightarrow> move_event \<Rightarrow> world \<Rightarrow> world" where
  "carousel_onMove rnd e = run [read_move_position e, update_visual_to_last, carousel_update_scroll rnd]"

subsubsection \<open>The chip row\<close>

definition chip_id_of :: "element \<Rightarrow> string option" where
  "chip_id_of wrapper = js_or (data_chipId wrapper) (data_entityId wrapper)"

definition chips_order :: "container \<Rightarrow> string list" where
  "chips_order chipsGrid = push_ids chip_id_of (querySelectorAll ''chip-wrapper'' chipsGrid)"

definition updateChipsOrder :: "container \<Rightarrow> world \<Rightarrow> world" where
  "updateChipsOrder chipsGrid w =
     (if customizationManager (mgr w) then persist (SaveChipsOrder (chips_order chipsGrid)) w else w)"

definition update_chips_of_item :: "world \<Rightarrow> world" where
  "update_chips_of_item w =
     (case closest [''carousel-grid'', ''chips''] w of
        Some chipsGrid \<Rightarrow> updateChipsOrder chipsGrid w
      | None \<Rightarrow> w)"

definition chips_onStart :: "sortable_event \<Rightarrow> world \<Rightarrow> world" where
  "chips_onStart evt =
     run [set_isReordering True,
          classList_add evt ''dragging'',
          read_start_position evt,
          create_visual_for_item evt True,
          addEventListener ''mousemove'',
          addEventListener ''touchmove'',
          vibrate 50,
          set_userSelect ''none'']"

definition chips_onEnd :: "sortable_event \<Rightarrow> world \<Rightarrow> world" where
  "chips_onEnd evt =
     run [set_isReordering False,
          classList_remove evt ''dragging'',
          stop_scrolling,
          on_visual removeDragVisual,
          removeEventListener ''mousemove'',
          removeEventListener ''touchmove'',
          set_userSelect [],
          vibrate 30,
          update_chips_of_item]"

definition chips_update_scroll :: "(real \<Rightarrow> real) \<Rightarrow> world \<Rightarrow> world" where
  "chips_update_scroll rnd w =
     w\<lparr>clo := (clo w)\<lparr>scroll :=
          chips_updateScrollSpeed rnd (scrollContainer (clo w)) (lastX (clo w)) (scroll (clo w))\<rparr>\<rparr>"

definition chips_onMove :: "(real \<Rightarrow> real) \<Rightarrow> move_event \<Rightarrow> world \<Rightarrow> world" where
  "chips_onMove rnd e = run [read_move_position e, update_visual_to_last, chips_update_scroll rnd]"

text \<open>The identifiers of the elements of a container, in document order.\<close>

definition dom_order :: "world \<Rightarrow> (string option \<times> string option) list" where
  "dom_order w = map (\<lambda>e. (data_chipId e, data_entityId e)) (children (cont (clo w)))"

text \<open>The inline visibility of every control of the container is \<open>v\<close>.\<close>

definition controls_all :: "string \<Rightarrow> world \<Rightarrow> bool" where
  "controls_all v w =
     list_all (\<lambda>e. list_all (\<lambda>ctrl. ctrl = v) (entity_controls e)) (children (cont (clo w)))"

subsection \<open>Example containers\<close>

text \<open>An entity card wrapper with one control, shown.\<close>

definition entity_wrapper :: "string \<Rightarrow> element" where
  "entity_wrapper eid =
     \<lparr>classList = [''entity-card-wrapper''], data_chipId = None, data_entityId = Some eid,
      home_card = None, chip_child = False, entity_controls = [[]],
      rect_width = 160, rect_height = 70\<rparr>"

text \<open>A chip wrapper as \<^verbatim>\<open>AppleChips.generateHTML\<close> renders it.\<close>

definition chip_wrapper :: "string \<Rightarrow> element" where
  "chip_wrapper g =
     \<lparr>classList = [''chip-wrapper''], data_chipId = Some g, data_entityId = Some g,
      home_card = None, chip_child = True, entity_controls = [],
      rect_width = 120, rect_height = 40\<rparr>"

text \<open>
  A grid of three lights with the given \<^verbatim>\<open>data-area-id\<close>, managed by a manager
  constructed in a fresh process.
\<close>

definition grid_world :: "string option \<Rightarrow> world" where
  "grid_world area =
     \<lparr>clo = setupGridSortable 1
        \<lparr>container_classList = [''area-entities''], data_areaId = area, data_sectionType = None,
         children = [entity_wrapper ''light.a'', entity_wrapper ''light.b'', entity_wrapper ''light.c'']\<rparr> [],
      mgr = fst (constructor True ''home'' fresh_process),
      proc = snd (constructor True ''home'' fresh_process)\<rparr>"

definition wide_scroller :: scroll_container where
  "wide_scroller = \<lparr>rect_left = 0, rect_right = 400, scrollWidth = 1000, clientWidth = 400, scrollLeft = 50\<rparr>"

definition carousel_world :: "string option \<Rightarrow> string option \<Rightarrow> world" where
  "carousel_world area section =
     \<lparr>clo = setupCarouselSortable 2
        \<lparr>container_classList = [''carousel-grid''], data_areaId = area, data_sectionType = section,
         children = [entity_wrapper ''camera.door'', entity_wrapper ''camera.yard'']\<rparr> []
        (Some wide_scroller),
      mgr = fst (constructor True ''home'' fresh_process),
      proc = snd (constructor True ''home'' fresh_process)\<rparr>"

text \<open>
  A chip row security, climate, lights (the order after security was dragged to the
  front) whose grid has the given classes; the second argument adds a control to the
  first chip.
\<close>

definition chips_world :: "string list \<Rightarrow> bool \<Rightarrow> world" where
  "chips_world classes with_control =
     \<lparr>clo = setupChipsSortable 3
        \<lparr>container_classList = classes, data_areaId = Some ''chips'', data_sectionType = Some ''chips'',
         children = [(chip_wrapper ''security'')\<lparr>entity_controls := (if with_control then [[]] else [])\<rparr>,
                     chip_wrapper ''climate'', chip_wrapper ''lights'']\<rparr> []
        (Some wide_scroller),
      mgr = fst (constructor True ''home'' fresh_process),
      proc = snd (constructor True ''home'' fresh_process)\<rparr>"

text \<open>The event of a drag of the item now at index \<open>i\<close>, which began at index \<open>from\<close>.\<close>

definition drag_event :: "nat \<Rightarrow> nat \<Rightarrow> sortable_event" where
  "drag_event from i = \<lparr>item = i, originalEvent = Some (MouseEvent 200 300), oldIndex = from, newIndex = i\<rparr>"


subsection \<open>The chip row as AppleChips renders it\<close>

text \<open>
  \<^verbatim>\<open>AppleChips.generateHTML\<close>: the grid with the class \<^verbatim>\<open>chips-grid\<close> holds one
  wrapper for each chip, with the chip's group as \<^verbatim>\<open>data-entity-id\<close> and as
  \<^verbatim>\<open>data-chip-id\<close>; around it are the \<^verbatim>\<open>chips-carousel-container\<close> and the
  \<^verbatim>\<open>apple-chips-section\<close>. The bounding rectangle of a wrapper is the browser's.
\<close>

definition generateHTML_wrapper :: "bool \<Rightarrow> real \<times> real \<Rightarrow> ChipData \<Rightarrow> element" where
  "generateHTML_wrapper editMode rect chip =
     \<lparr>classList = ''chip-wrapper'' # (if editMode then [''edit-mode''] else []),
      data_chipId = Some (group chip), data_entityId = Some (group chip),
      home_card = None, chip_child = True, entity_controls = [],
      rect_width = fst rect, rect_height = snd rect\<rparr>"

definition generateHTML_grid :: "bool \<Rightarrow> real \<times> real \<Rightarrow> ChipData list \<Rightarrow> container" where
  "generateHTML_grid editMode rect chips =
     \<lparr>container_classList = [''chips-grid''], data_areaId = Some ''chips'',
      data_sectionType = Some ''chips'', children = map (generateHTML_wrapper editMode rect) chips\<rparr>"

definition generateHTML_ancestors :: "bool \<Rightarrow> ChipData list \<Rightarrow> container list" where
  "generateHTML_ancestors rtl chips =
     [\<lparr>container_classList = [''chips-carousel-container'', if rtl then ''rtl'' else ''ltr''],
       data_areaId = None, data_sectionType = None, children = []\<rparr>,
      \<lparr>container_classList = [''apple-chips-section''],
       data_areaId = None, data_sectionType = None, children = []\<rparr>]"

subsection \<open>A drop\<close>

text \<open>
  Between \<^verbatim>\<open>onStart\<close> and \<^verbatim>\<open>onEnd\<close> of a drop the sensing library moves the
  dragged element among the elements of its container, from the index it had to the index
  where it is dropped; the event of \<^verbatim>\<open>onEnd\<close> then carries the element at its new
  index. The library is not part of the repository: this is what puts a container in the
  state in which \<^verbatim>\<open>onEnd\<close> finds it.
\<close>

definition moved :: "nat \<Rightarrow> nat \<Rightarrow> 'a list \<Rightarrow> 'a list" where
  "moved from dest xs =
     (if from < length xs
      then (let others = take from xs @ drop (Suc from) xs
            in take dest others @ [xs ! from] @ drop dest others)
      else xs)"

definition sortable_move :: "nat \<Rightarrow> nat \<Rightarrow> world \<Rightarrow> world" where
  "sortable_move from dest w =
     w\<lparr>clo := (clo w)\<lparr>cont := (cont (clo w))\<lparr>children := moved from dest (children (cont (clo w)))\<rparr>\<rparr>\<rparr>"

text \<open>
  The chips climate, lights and security, rendered in edit mode into a
  \<^verbatim>\<open>permanent-chips\<close> host, with the chip row of a manager constructed in a fresh
  process enabled on the grid.
\<close>

definition chips_host :: "container list" where
  "chips_host =
     [\<lparr>container_classList = [''permanent-chips''], data_areaId = None, data_sectionType = None,
       children = []\<rparr>]"

definition rendered_chips_world :: world where
  "rendered_chips_world =
     \<lparr>clo = setupChipsSortable 3
        (generateHTML_grid True (120, 40) [chip_of ''climate'', chip_of ''lights'', chip_of ''security''])
        (generateHTML_ancestors False [chip_of ''climate'', chip_of ''lights'', chip_of ''security'']
           @ chips_host)
        (Some wide_scroller),
      mgr = fst (constructor True ''home'' fresh_process),
      proc = snd (constructor True ''home'' fresh_process)\<rparr>"

section \<open>Verification\<close>

subsection \<open>Facts about applySavedChipsOrder\<close>

lemma group_chip_of [simp]: "group (chip_of g) = g"
  by (simp add: chip_of_def)

lemma chipMap_of_snoc:
  "chipMap_of (chips @ [c]) = (chipMap_of chips)(group c \<mapsto> c)"
  by (simp add: chipMap_of_def)

lemma chipMap_of_dom:
  "chipMap_of chips g \<noteq> None \<longleftrightarrow> g \<in> group ` set chips"
  by (induction chips rule: rev_induct) (auto simp: chipMap_of_snoc chipMap_of_def)

lemma chipMap_of_lookup:
  "distinct (map group chips) \<Longrightarrow>
     (case chipMap_of chips g of Some c \<Rightarrow> [c] | None \<Rightarrow> []) = filter (\<lambda>c. group c = g) chips"
proof (induction chips rule: rev_induct)
  case Nil
  then show ?case by (simp add: chipMap_of_def)
next
  case (snoc a chips)
  have d: "distinct (map group chips)" and fresh: "group a \<notin> group ` set chips"
    using snoc.prems by auto
  show ?case
  proof (cases "group a = g")
    case True
    have "group c \<noteq> g" if "c \<in> set chips" for c
      using that fresh True by (metis imageI)
    then have "filter (\<lambda>c. group c = g) chips = []"
      by (simp add: filter_empty_conv)
    then show ?thesis using True by (simp add: chipMap_of_snoc)
  next
    case False
    then show ?thesis using snoc.IH [OF d] by (simp add: chipMap_of_snoc)
  qed
qed

lemma fold_push_saved:
  assumes "distinct (map group chips)"
  shows "fold (push_saved (chipMap_of chips)) savedOrder (acc, used) =
           (acc @ concat (map (\<lambda>g. filter (\<lambda>c. group c = g) chips) savedOrder),
            used \<union> (set savedOrder \<inter> group ` set chips))"
proof (induction savedOrder arbitrary: acc used)
  case Nil
  then show ?case by simp
next
  case (Cons g gs)
  show ?case
  proof (cases "chipMap_of chips g")
    case None
    then have "filter (\<lambda>c. group c = g) chips = []" "g \<notin> group ` set chips"
      using chipMap_of_lookup [OF assms, of g] chipMap_of_dom [of chips g] by auto
    then show ?thesis using None Cons [of acc used] by (simp add: push_saved_def)
  next
    case (Some c)
    then have "filter (\<lambda>c. group c = g) chips = [c]" "g \<in> group ` set chips"
      using chipMap_of_lookup [OF assms, of g] chipMap_of_dom [of chips g] by auto
    then show ?thesis
      using Some Cons [of "acc @ [c]" "insert g used"] by (auto simp: push_saved_def)
  qed
qed

lemma fold_push_unused:
  "fold (push_unused used) chips acc = acc @ filter (\<lambda>c. group c \<notin> used) chips"
  by (induction chips arbitrary: acc) (auto simp: push_unused_def)

lemma applySavedChipsOrder_eq:
  assumes "distinct (map group chips)" and "savedOrder \<noteq> []"
  shows "applySavedChipsOrder (Some savedOrder) chips = saved_then_rest savedOrder chips"
proof -
  have "filter (\<lambda>c. group c \<notin> set savedOrder \<inter> group ` set chips) chips
          = filter (\<lambda>c. group c \<notin> set savedOrder) chips"
    by (rule filter_cong) auto
  then show ?thesis
    using assms(2)
    by (simp add: applySavedChipsOrder_def saved_then_rest_def Let_def
        fold_push_saved [OF assms(1)] fold_push_unused)
qed

lemma mset_saved_groups:
  "distinct savedOrder \<Longrightarrow>
     mset (concat (map (\<lambda>g. filter (\<lambda>c. group c = g) chips) savedOrder))
       = mset (filter (\<lambda>c. group c \<in> set savedOrder) chips)"
proof (induction savedOrder)
  case Nil
  then show ?case by simp
next
  case (Cons g gs)
  have "mset (filter (\<lambda>c. group c \<in> set (g # gs)) chips)
          = mset (filter (\<lambda>c. group c = g) chips) + mset (filter (\<lambda>c. group c \<in> set gs) chips)"
    using Cons.prems by (induction chips) auto
  then show ?case using Cons by simp
qed

lemma mset_saved_then_rest:
  "distinct savedOrder \<Longrightarrow> mset (saved_then_rest savedOrder chips) = mset chips"
  by (simp add: saved_then_rest_def mset_saved_groups)

text \<open>
  Claim C10, as amended. For a chip list with pairwise distinct groups and a saved order
  without repetitions, \<^verbatim>\<open>applySavedChipsOrder\<close> returns a permutation of its input:
  the input itself when the saved order is empty, and otherwise the chips of the saved
  groups in saved-order sequence followed by the remaining chips in their original
  relative order. Without a customization manager the input is returned as it is.
\<close>

theorem applySavedChipsOrder_permutation:
  assumes "distinct (map group chips)" and "distinct savedOrder"
  shows "applySavedChipsOrder (Some savedOrder) chips
           = (if savedOrder = [] then chips else saved_then_rest savedOrder chips)
         \<and> mset (applySavedChipsOrder (Some savedOrder) chips) = mset chips
         \<and> applySavedChipsOrder None chips = chips"
proof (cases "savedOrder = []")
  case True
  then show ?thesis by (simp add: applySavedChipsOrder_def)
next
  case False
  have "applySavedChipsOrder (Some savedOrder) chips = saved_then_rest savedOrder chips"
    using assms(1) False by (rule applySavedChipsOrder_eq)
  moreover have "mset (saved_then_rest savedOrder chips) = mset chips"
    using assms(2) by (rule mset_saved_then_rest)
  moreover have "applySavedChipsOrder None chips = chips"
    by (simp add: applySavedChipsOrder_def)
  ultimately show ?thesis using False by simp
qed

text \<open>
  The chip row climate, lights, security with the saved order security, climate is shown
  as security, climate, lights.
\<close>

theorem applySavedChipsOrder_permutation_witness:
  "distinct (map group [chip_of ''climate'', chip_of ''lights'', chip_of ''security''])
   \<and> distinct [''security'', ''climate'']
   \<and> applySavedChipsOrder (Some [''security'', ''climate''])
        [chip_of ''climate'', chip_of ''lights'', chip_of ''security'']
      = [chip_of ''security'', chip_of ''climate'', chip_of ''lights'']"
proof -
  have d1: "distinct (map group [chip_of ''climate'', chip_of ''lights'', chip_of ''security''])"
    by (simp add: chip_of_def)
  have d2: "distinct [''security'', ''climate'']"
    by simp
  show ?thesis
    using d1 d2 applySavedChipsOrder_permutation [OF d1 d2]
    by (simp add: saved_then_rest_def chip_of_def)
qed

text \<open>
  Claim C10 as stated fails for a saved order that names a group twice: the chip of that
  group is pushed twice, so the result is not a permutation of the input.
\<close>

theorem applySavedChipsOrder_repeated_group:
  "applySavedChipsOrder (Some [''lights'', ''lights'']) [chip_of ''lights'']
     = [chip_of ''lights'', chip_of ''lights'']
   \<and> mset (applySavedChipsOrder (Some [''lights'', ''lights'']) [chip_of ''lights''])
       \<noteq> mset [chip_of ''lights'']"
  by (simp add: applySavedChipsOrder_def chipMap_of_def push_saved_def push_unused_def)

subsection \<open>Facts about notifyListeners\<close>











subsection \<open>Facts about the global styles\<close>

lemma style_count_inject:
  "style_count (injectGlobalStyles p) = style_count p + (if globalStylesInjected p then 0 else 1)"
  by (simp add: injectGlobalStyles_def style_count_def)

lemma injected_after_inject:
  "globalStylesInjected (injectGlobalStyles p)"
  by (simp add: injectGlobalStyles_def)

lemma host_step_process:
  "snd (host_step c (ms, p)) = (if is_construct c then injectGlobalStyles p else p)"
  by (cases c) (simp_all add: constructor_def)

lemma host_run_styles:
  "style_count (snd (host_run calls (ms, p)))
     = style_count p + (if \<not> globalStylesInjected p \<and> list_ex is_construct calls then 1 else 0)
   \<and> globalStylesInjected (snd (host_run calls (ms, p)))
     = (globalStylesInjected p \<or> list_ex is_construct calls)"
proof (induction calls arbitrary: ms p)
  case Nil
  then show ?case by (simp add: host_run_def)
next
  case (Cons c calls)
  obtain ms' p' where step: "host_step c (ms, p) = (ms', p')"
    by (cases "host_step c (ms, p)")
  have p': "p' = (if is_construct c then injectGlobalStyles p else p)"
    using host_step_process [of c ms p] step by simp
  have run: "host_run (c # calls) (ms, p) = host_run calls (ms', p')"
    using step by (simp add: host_run_def)
  show ?case
    unfolding run using Cons [of ms' p'] p'
    by (auto simp: style_count_inject injected_after_inject)
qed

text \<open>
  Claim C7. Whatever managers the host constructs and whatever containers it attaches, in
  any order, the number of style elements with the id \<^verbatim>\<open>sortable-drag-styles\<close> in
  the document head grows by one if the static flag was not set and a manager was
  constructed, and by nothing otherwise; counted from a fresh process it is never more
  than one; and injecting twice is injecting once.
\<close>

theorem global_styles_injected_once:
  "style_count (snd (host_run calls (ms, p)))
     = style_count p + (if \<not> globalStylesInjected p \<and> list_ex is_construct calls then 1 else 0)
   \<and> style_count (snd (host_run calls ([], fresh_process))) \<le> 1
   \<and> style_count (snd (host_run calls ([], fresh_process))) = (if list_ex is_construct calls then 1 else 0)
   \<and> injectGlobalStyles (injectGlobalStyles p) = injectGlobalStyles p"
proof -
  have "style_count fresh_process = 0" "\<not> globalStylesInjected fresh_process"
    by (simp_all add: fresh_process_def style_count_def)
  then have "style_count (snd (host_run calls ([], fresh_process))) = (if list_ex is_construct calls then 1 else 0)"
    using host_run_styles [of calls "[]" fresh_process] by simp
  moreover have "injectGlobalStyles (injectGlobalStyles p) = injectGlobalStyles p"
    by (simp add: injectGlobalStyles_def)
  ultimately show ?thesis
    using host_run_styles [of calls ms p] by simp
qed

text \<open>
  Two managers are constructed and one container is attached to each: one style element.
\<close>

theorem global_styles_injected_once_witness:
  "head (snd (host_run
       [Construct True ''home'',
        Attach 0 \<lparr>gridContainers = [10], carouselContainers = [11], permanent_chips = False, chips_grid = None\<rparr>,
        Construct True ''room'',
        Attach 1 \<lparr>gridContainers = [], carouselContainers = [], permanent_chips = True, chips_grid = Some 12\<rparr>]
       ([], fresh_process)))
     = [''sortable-drag-styles'']
   \<and> style_count (snd (host_run
       [Construct True ''home'',
        Attach 0 \<lparr>gridContainers = [10], carouselContainers = [11], permanent_chips = False, chips_grid = None\<rparr>,
        Construct True ''room'',
        Attach 1 \<lparr>gridContainers = [], carouselContainers = [], permanent_chips = True, chips_grid = Some 12\<rparr>]
       ([], fresh_process))) = 1"
  using global_styles_injected_once [of
       "[Construct True ''home'',
        Attach 0 \<lparr>gridContainers = [10], carouselContainers = [11], permanent_chips = False, chips_grid = None\<rparr>,
        Construct True ''room'',
        Attach 1 \<lparr>gridContainers = [], carouselContainers = [], permanent_chips = True, chips_grid = Some 12\<rparr>]"
       "[]" fresh_process]
  by (simp add: host_run_def constructor_def injectGlobalStyles_def fresh_process_def)

subsection \<open>Facts about the drag visual\<close>

lemma references_append: "references (xs @ ys) = references xs @ references ys"
  by (simp add: references_def)

lemma references_Cons:
  "references (m # ms) = (case dragVisual m of None \<Rightarrow> [] | Some i \<Rightarrow> [i]) @ references ms"
  by (simp add: references_def)

lemma references_nth:
  assumes "i < length ms"
  shows "references ms = references (take i ms)
           @ (case dragVisual (ms ! i) of None \<Rightarrow> [] | Some r \<Rightarrow> [r]) @ references (drop (Suc i) ms)"
proof -
  have "references ms = references (take i ms @ ms ! i # drop (Suc i) ms)"
    using id_take_nth_drop [OF assms] by simp
  then show ?thesis
    by (simp only: references_append references_Cons)
qed

lemma references_update:
  assumes "i < length ms"
  shows "references (ms[i := m']) = references (take i ms)
           @ (case dragVisual m' of None \<Rightarrow> [] | Some r \<Rightarrow> [r]) @ references (drop (Suc i) ms)"
  by (simp only: upd_conv_take_nth_drop [OF assms] references_append references_Cons)

lemma references_length: "length (references ms) \<le> length ms"
  by (induction ms) (simp_all add: references_Cons references_def split: option.splits)

lemma owners_count:
  "length (owners n ms) = length (filter (\<lambda>r. r = node n) (references ms))"
  by (induction ms) (auto simp: owners_def references_def split: option.splits)

lemma distinct_once:
  "distinct xs \<Longrightarrow> x \<in> set xs \<Longrightarrow> length (filter (\<lambda>y. y = x) xs) = 1"
  by (induction xs) (auto simp: filter_empty_conv)

lemma distinct_at_most_once:
  "distinct (map f xs) \<Longrightarrow> length (filter (\<lambda>x. r = Some (f x)) xs) \<le> 1"
proof (induction xs)
  case Nil
  then show ?case by simp
next
  case (Cons a xs)
  show ?case
  proof (cases "r = Some (f a)")
    case True
    have "f x \<noteq> f a" if "x \<in> set xs" for x
      using Cons.prems that by (metis distinct.simps(2) imageI list.simps(9) set_map)
    then have "r \<noteq> Some (f x)" if "x \<in> set xs" for x
      using that True by fastforce
    then have "filter (\<lambda>x. r = Some (f x)) xs = []"
      by (simp add: filter_empty_conv)
    then show ?thesis using True by simp
  next
    case False
    then show ?thesis using Cons by simp
  qed
qed

text \<open>Each call of one manager keeps the references and the document in agreement.\<close>

lemma attached_remove:
  assumes "attached (ms, p)" and "i < length ms"
    and "removeDragVisual (ms ! i, p) = (m', p')"
  shows "attached (ms[i := m'], p')" and "dragVisual m' = None" and "created p' = created p"
    and "body p' = filter (\<lambda>n. dragVisual (ms ! i) \<noteq> Some (node n)) (body p)"
proof -
  let ?P = "references (take i ms)"
  let ?S = "references (drop (Suc i) ms)"
  have m': "m' = (ms ! i)\<lparr>dragVisual := None\<rparr>"
    using assms(3) by (simp add: removeDragVisual_def)
  show "dragVisual m' = None" by (simp add: m')
  show b: "body p' = filter (\<lambda>n. dragVisual (ms ! i) \<noteq> Some (node n)) (body p)"
  proof (cases "dragVisual (ms ! i)")
    case None
    then show ?thesis using assms(3) by (auto simp: removeDragVisual_def)
  next
    case (Some r)
    have e: "(\<lambda>n. dragVisual (ms ! i) \<noteq> Some (node n)) = (\<lambda>n. node n \<noteq> r)"
      using Some by auto
    have "filter (\<lambda>n. node n \<noteq> r) (body p) = body p" if "r \<notin> set (map node (body p))"
      using that by (auto simp: filter_id_conv)
    then show ?thesis
      unfolding e using assms(3) Some by (auto simp: removeDragVisual_def)
  qed
  show c: "created p' = created p"
    using assms(3) by (auto simp: removeDragVisual_def split: option.splits if_splits)
  have r': "references (ms[i := m']) = ?P @ ?S"
    using references_update [OF assms(2), of m'] by (simp add: m')
  have d: "distinct (references ms)" "distinct (map node (body p))"
    "set (references ms) = set (map node (body p))"
    "list_all (\<lambda>n. node n < created p \<and> ''drag-visual-clone'' \<in> set (clone_classList n)) (body p)"
    using assms(1) by (simp_all add: attached_def)
  have "distinct (references (ms[i := m']))"
    using d(1) unfolding r' references_nth [OF assms(2)] by auto
  moreover have "distinct (map node (body p'))"
    using d(2) unfolding b by (rule distinct_map_filter)
  moreover have "set (references (ms[i := m'])) = set (map node (body p'))"
  proof (cases "dragVisual (ms ! i)")
    case None
    then show ?thesis
      using d(3) unfolding r' b references_nth [OF assms(2), of] by simp
  next
    case (Some r)
    have "set (map node (body p')) = set (map node (body p)) - {r}"
      unfolding b using Some by auto
    moreover have "r \<notin> set (?P @ ?S)"
      using d(1) Some unfolding references_nth [OF assms(2)] by auto
    moreover have "set (map node (body p)) = set (?P @ ?S) \<union> {r}"
      using d(3) Some unfolding references_nth [OF assms(2)] by auto
    ultimately show ?thesis
      unfolding r' by blast
  qed
  moreover have "list_all (\<lambda>n. node n < created p' \<and> ''drag-visual-clone'' \<in> set (clone_classList n)) (body p')"
    using d(4) unfolding b c by (simp add: list_all_iff)
  ultimately show "attached (ms[i := m'], p')"
    by (simp add: attached_def)
qed

lemma attached_create:
  assumes "attached (ms, p)" and "i < length ms"
    and "createDragVisual el x y isChip (ms ! i, p) = (m', p')"
  shows "attached (ms[i := m'], p')" and "length (own_clones m' p') = 1"
    and "length (body p') = Suc (length (filter (\<lambda>n. dragVisual (ms ! i) \<noteq> Some (node n)) (body p)))"
proof -
  obtain m1 p1 where r: "removeDragVisual (ms ! i, p) = (m1, p1)"
    by (cases "removeDragVisual (ms ! i, p)")
  note a1 = attached_remove [OF assms(1,2) r]
  have m': "m' = m1\<lparr>dragVisual := Some (created p1)\<rparr>"
    and b: "body p' = body p1 @ [\<lparr>node = created p1,
               clone_classList = ''drag-visual-clone'' # (if isChip then [''chip''] else []),
               style_width = rect_width el, style_height = rect_height el,
               style_left = x - rect_width el / 2, style_top = y - rect_height el / 2,
               content = visual_content_of el isChip\<rparr>]"
    and c: "created p' = created p1 + 1"
    using assms(3) r by (auto simp: createDragVisual_def)
  show "length (body p') = Suc (length (filter (\<lambda>n. dragVisual (ms ! i) \<noteq> Some (node n)) (body p)))"
    unfolding b a1(4) by simp
  let ?P = "references (take i ms)"
  let ?S = "references (drop (Suc i) ms)"
  have d: "distinct (?P @ ?S)" "distinct (map node (body p1))"
    "set (?P @ ?S) = set (map node (body p1))"
    "list_all (\<lambda>n. node n < created p1 \<and> ''drag-visual-clone'' \<in> set (clone_classList n)) (body p1)"
    using a1(1,2) references_update [OF assms(2), of m1] by (simp_all add: attached_def)
  have fresh: "created p1 \<notin> set (map node (body p1))"
    using d(4) by (auto simp: list_all_iff)
  have r': "references (ms[i := m']) = ?P @ [created p1] @ ?S"
    using references_update [OF assms(2), of m'] by (simp add: m')
  have "distinct (references (ms[i := m']))"
    using d(1,3) fresh unfolding r' by auto
  moreover have "distinct (map node (body p'))"
    using d(2) fresh unfolding b by simp
  moreover have "set (references (ms[i := m'])) = set (map node (body p'))"
    using d(3) unfolding r' b by auto
  moreover have "list_all (\<lambda>n. node n < created p' \<and> ''drag-visual-clone'' \<in> set (clone_classList n)) (body p')"
    using d(4) unfolding b c by (auto simp: list_all_iff)
  ultimately show "attached (ms[i := m'], p')"
    by (simp add: attached_def)
  have "filter (\<lambda>n. created p1 = node n) (body p1) = []"
    using fresh by (auto simp: filter_empty_conv)
  then show "length (own_clones m' p') = 1"
    by (simp add: own_clones_def m' b)
qed

lemma attached_update:
  assumes "attached (ms, p)" and "i < length ms"
    and "updateDragVisual x y (ms ! i, p) = (m', p')"
  shows "attached (ms[i := m'], p')"
proof -
  have same: "map node (map (\<lambda>n. if node n = r then move_clone x y n else n) ns) = map node ns" for r ns
    by (induction ns) (auto simp: move_clone_def)
  have cls: "list_all (\<lambda>n. node n < k \<and> ''drag-visual-clone'' \<in> set (clone_classList n))
               (map (\<lambda>n. if node n = r then move_clone x y n else n) ns)
             = list_all (\<lambda>n. node n < k \<and> ''drag-visual-clone'' \<in> set (clone_classList n)) ns" for r ns k
    by (induction ns) (auto simp: move_clone_def)
  have m': "m' = ms ! i" and c: "created p' = created p"
    and n: "map node (body p') = map node (body p)"
    and l: "list_all (\<lambda>n. node n < created p \<and> ''drag-visual-clone'' \<in> set (clone_classList n)) (body p')
         = list_all (\<lambda>n. node n < created p \<and> ''drag-visual-clone'' \<in> set (clone_classList n)) (body p)"
    using assms(3) by (auto simp: updateDragVisual_def same cls simp del: map_map split: option.splits)
  have n': "set (map node (body p')) = set (map node (body p))"
    "distinct (map node (body p')) = distinct (map node (body p))"
    by (simp_all only: n)
  have ms: "ms[i := m'] = ms"
    by (simp add: m')
  show ?thesis
    using assms(1) unfolding attached_def ms by (simp only: prod.case n' c l)
qed

lemma attached_step:
  assumes "attached s"
  shows "attached (shared_step ic s)" and "length (fst (shared_step ic s)) = length (fst s)"
proof -
  obtain ms p where s: "s = (ms, p)" by (cases s)
  obtain i c where ic: "ic = (i, c)" by (cases ic)
  show "length (fst (shared_step ic s)) = length (fst s)"
    by (simp add: shared_step_def s ic split: prod.splits)
  show "attached (shared_step ic s)"
  proof (cases "i < length ms")
    case False
    then show ?thesis using assms by (simp add: shared_step_def s ic)
  next
    case True
    obtain m' p' where v: "visual_step c (ms ! i, p) = (m', p')"
      by (cases "visual_step c (ms ! i, p)")
    have "attached (ms[i := m'], p')"
    proof (cases c)
      case (CreateVisual el x y isChip)
      then show ?thesis using attached_create(1) [OF _ True, of p el x y isChip m' p'] assms v s by simp
    next
      case (UpdateVisual x y)
      then show ?thesis using attached_update [OF _ True, of p x y m' p'] assms v s by simp
    next
      case RemoveVisual
      then show ?thesis using attached_remove(1) [OF _ True, of p m' p'] assms v s by simp
    qed
    then show ?thesis
      using True v by (simp add: shared_step_def s ic)
  qed
qed

lemma attached_run:
  "attached s \<Longrightarrow> attached (shared_run calls s) \<and> length (fst (shared_run calls s)) = length (fst s)"
proof (induction calls arbitrary: s)
  case Nil
  then show ?case by (simp add: shared_run_def)
next
  case (Cons c calls)
  have "attached (shared_step c s)" "length (fst (shared_step c s)) = length (fst s)"
    using attached_step [OF Cons.prems] by simp_all
  then show ?case
    using Cons.IH [of "shared_step c s"] by (simp add: shared_run_def)
qed

text \<open>What the agreement gives for every manager, for every clone and for the document.\<close>

lemma attached_count:
  assumes "attached (ms, p)"
  shows "clone_count p = length (references ms)" and "clone_count p = length (body p)"
proof -
  have d: "distinct (references ms)" "distinct (map node (body p))"
    "set (references ms) = set (map node (body p))"
    "list_all (\<lambda>n. ''drag-visual-clone'' \<in> set (clone_classList n)) (body p)"
    using assms by (simp_all add: attached_def list_all_iff)
  have "filter (\<lambda>n. ''drag-visual-clone'' \<in> set (clone_classList n)) (body p) = body p"
    using d(4) by (simp add: list_all_iff)
  then show c: "clone_count p = length (body p)"
    by (simp add: clone_count_def)
  have "length (map node (body p)) = card (set (map node (body p)))"
    using d(2) by (simp only: distinct_card)
  also have "\<dots> = length (references ms)"
    using d(1,3) distinct_card [of "references ms"] by simp
  finally show "clone_count p = length (references ms)"
    using c by simp
qed

lemma attached_own:
  assumes "attached (ms, p)"
  shows "length (own_clones m p) \<le> 1"
proof -
  have "distinct (map node (body p))"
    using assms by (simp add: attached_def)
  then show ?thesis
    unfolding own_clones_def by (rule distinct_at_most_once)
qed

lemma attached_owner:
  assumes "attached (ms, p)" and "n \<in> set (body p)"
  shows "length (owners n ms) = 1"
proof -
  have "distinct (references ms)" "node n \<in> set (references ms)"
    using assms by (auto simp: attached_def)
  then show ?thesis
    by (simp add: owners_count distinct_once)
qed


lemma referenced:
  "m \<in> set ms \<Longrightarrow> dragVisual m = Some r \<Longrightarrow> r \<in> set (references ms)"
  by (induction ms) (auto simp: references_Cons)

lemma attached_apart:
  assumes "attached (ms, p)" and "i < length ms" and "j < length ms" and "j \<noteq> i"
    and "dragVisual (ms ! i) = Some r"
  shows "dragVisual (ms ! j) \<noteq> Some r"
proof
  assume j: "dragVisual (ms ! j) = Some r"
  have d: "distinct (references (take i ms) @ [r] @ references (drop (Suc i) ms))"
    using assms(1,5) references_nth [OF assms(2)] by (simp add: attached_def)
  consider "j < i" | "i < j" using assms(4) by linarith
  then show False
  proof cases
    case 1
    then have "ms ! j \<in> set (take i ms)"
      using assms(2) by (metis length_take min.absorb2 less_imp_le nth_mem nth_take)
    then have "r \<in> set (references (take i ms))"
      using j by (rule referenced)
    then show False using d by auto
  next
    case 2
    then have "drop (Suc i) ms ! (j - Suc i) = ms ! j" "j - Suc i < length (drop (Suc i) ms)"
      using assms(3) by simp_all
    then have "ms ! j \<in> set (drop (Suc i) ms)"
      by (metis nth_mem)
    then have "r \<in> set (references (drop (Suc i) ms))"
      using j by (rule referenced)
    then show False using d by auto
  qed
qed

text \<open>What \<^verbatim>\<open>removeDragVisual\<close> of one manager does to the shared document.\<close>

lemma shared_remove:
  assumes "attached (ms, p)" and "i < length ms"
  shows "own_clones (ms ! i) (snd (shared_step (i, RemoveVisual) (ms, p))) = []"
    and "dragVisual (fst (shared_step (i, RemoveVisual) (ms, p)) ! i) = None"
    and "clone_count (snd (shared_step (i, RemoveVisual) (ms, p)))
           = clone_count p - length (own_clones (ms ! i) p)"
    and "j < length ms \<Longrightarrow> j \<noteq> i \<Longrightarrow>
           own_clones (ms ! j) (snd (shared_step (i, RemoveVisual) (ms, p))) = own_clones (ms ! j) p"
proof -
  obtain m' p' where r: "removeDragVisual (ms ! i, p) = (m', p')"
    by (cases "removeDragVisual (ms ! i, p)")
  note a = attached_remove [OF assms r]
  have st: "shared_step (i, RemoveVisual) (ms, p) = (ms[i := m'], p')"
    using assms(2) r by (simp add: shared_step_def)
  show "own_clones (ms ! i) (snd (shared_step (i, RemoveVisual) (ms, p))) = []"
    by (simp add: st own_clones_def a(4))
  show "dragVisual (fst (shared_step (i, RemoveVisual) (ms, p)) ! i) = None"
    using assms(2) by (simp add: st a(2))
  have "length (body p') = length (body p) - length (filter (\<lambda>n. dragVisual (ms ! i) = Some (node n)) (body p))"
    using sum_length_filter_compl [of "\<lambda>n. dragVisual (ms ! i) = Some (node n)" "body p"]
    unfolding a(4) by simp
  then show "clone_count (snd (shared_step (i, RemoveVisual) (ms, p)))
           = clone_count p - length (own_clones (ms ! i) p)"
    using attached_count(2) [OF a(1)] attached_count(2) [OF assms(1)]
    by (simp add: st own_clones_def)
  show "own_clones (ms ! j) (snd (shared_step (i, RemoveVisual) (ms, p))) = own_clones (ms ! j) p"
    if "j < length ms" "j \<noteq> i"
  proof -
    note jl = that(1) and ji = that(2)
    have "dragVisual (ms ! i) \<noteq> Some (node n)" if h: "dragVisual (ms ! j) = Some (node n)" for n
      using attached_apart [OF assms(1) jl assms(2) _ h] ji by auto
    then have "filter (\<lambda>n. dragVisual (ms ! j) = Some (node n))
                 (filter (\<lambda>n. dragVisual (ms ! i) \<noteq> Some (node n)) (body p))
               = filter (\<lambda>n. dragVisual (ms ! j) = Some (node n)) (body p)"
      by (auto intro: filter_cong)
    then show ?thesis
      by (simp add: st own_clones_def a(4))
  qed
qed

lemma shared_create:
  assumes "attached (ms, p)" and "i < length ms"
  shows "length (own_clones (fst (shared_step (i, CreateVisual el x y isChip) (ms, p)) ! i)
                   (snd (shared_step (i, CreateVisual el x y isChip) (ms, p)))) = 1"
    and "clone_count (snd (shared_step (i, CreateVisual el x y isChip) (ms, p)))
           = Suc (clone_count p - length (own_clones (ms ! i) p))"
proof -
  obtain m' p' where c: "createDragVisual el x y isChip (ms ! i, p) = (m', p')"
    by (cases "createDragVisual el x y isChip (ms ! i, p)")
  note a = attached_create [OF assms c]
  have st: "shared_step (i, CreateVisual el x y isChip) (ms, p) = (ms[i := m'], p')"
    using assms(2) c by (simp add: shared_step_def)
  show "length (own_clones (fst (shared_step (i, CreateVisual el x y isChip) (ms, p)) ! i)
                   (snd (shared_step (i, CreateVisual el x y isChip) (ms, p)))) = 1"
    using assms(2) a(2) by (simp add: st)
  have "length (filter (\<lambda>n. dragVisual (ms ! i) \<noteq> Some (node n)) (body p))
      = length (body p) - length (filter (\<lambda>n. dragVisual (ms ! i) = Some (node n)) (body p))"
    using sum_length_filter_compl [of "\<lambda>n. dragVisual (ms ! i) = Some (node n)" "body p"] by simp
  then show "clone_count (snd (shared_step (i, CreateVisual el x y isChip) (ms, p)))
           = Suc (clone_count p - length (own_clones (ms ! i) p))"
    using attached_count(2) [OF a(1)] attached_count(2) [OF assms(1)] a(3)
    by (simp add: st own_clones_def)
qed


text \<open>
  Claim C4, as amended. In a document shared by any number of managers whose references
  and document agree (as they do once the managers are constructed in a document without
  clones), after any interleaving of their calls of \<^verbatim>\<open>createDragVisual\<close>,
  \<^verbatim>\<open>updateDragVisual\<close> and \<^verbatim>\<open>removeDragVisual\<close>: every manager has at most
  one clone in the document, every clone in the document belongs to exactly one manager,
  and so the document holds as many clones as there are managers with a drag visual, at
  most one per manager. \<^verbatim>\<open>removeDragVisual\<close> of a manager takes that manager's
  clone out of the document at once, clears its reference and leaves the clones of the
  other managers alone; \<^verbatim>\<open>createDragVisual\<close> leaves the manager with exactly one
  clone; and a create followed by a remove leaves it with none.
\<close>

theorem one_clone_per_manager:
  assumes "attached s" and "i < length (fst s)"
  shows "list_all (\<lambda>m. length (own_clones m (snd (shared_run calls s))) \<le> 1) (fst (shared_run calls s))
     \<and> list_all (\<lambda>n. length (owners n (fst (shared_run calls s))) = 1) (body (snd (shared_run calls s)))
     \<and> clone_count (snd (shared_run calls s)) = length (references (fst (shared_run calls s)))
     \<and> clone_count (snd (shared_run calls s)) \<le> length (fst s)
     \<and> own_clones (fst (shared_run calls s) ! i)
          (snd (shared_step (i, RemoveVisual) (shared_run calls s))) = []
     \<and> dragVisual (fst (shared_step (i, RemoveVisual) (shared_run calls s)) ! i) = None
     \<and> clone_count (snd (shared_step (i, RemoveVisual) (shared_run calls s)))
          = clone_count (snd (shared_run calls s))
            - length (own_clones (fst (shared_run calls s) ! i) (snd (shared_run calls s)))
     \<and> (\<forall>j. j < length (fst s) \<and> j \<noteq> i \<longrightarrow>
          own_clones (fst (shared_run calls s) ! j)
            (snd (shared_step (i, RemoveVisual) (shared_run calls s)))
          = own_clones (fst (shared_run calls s) ! j) (snd (shared_run calls s)))
     \<and> length (own_clones (fst (shared_step (i, CreateVisual el x y isChip) (shared_run calls s)) ! i)
          (snd (shared_step (i, CreateVisual el x y isChip) (shared_run calls s)))) = 1
     \<and> clone_count (snd (shared_step (i, RemoveVisual)
          (shared_step (i, CreateVisual el x y isChip) (shared_run calls s))))
          = clone_count (snd (shared_run calls s))
            - length (own_clones (fst (shared_run calls s) ! i) (snd (shared_run calls s)))"
proof -
  obtain ms p where t: "shared_run calls s = (ms, p)"
    by (cases "shared_run calls s")
  have a: "attached (ms, p)" and l: "length ms = length (fst s)"
    using attached_run [OF assms(1), of calls] by (simp_all add: t)
  have i: "i < length ms"
    using assms(2) l by simp
  obtain ms' p' where c: "shared_step (i, CreateVisual el x y isChip) (ms, p) = (ms', p')"
    by (cases "shared_step (i, CreateVisual el x y isChip) (ms, p)")
  have a': "attached (ms', p')" and l': "length ms' = length ms"
    using attached_step [OF a, of "(i, CreateVisual el x y isChip)"] by (simp_all add: c)
  have i': "i < length ms'"
    using i l' by simp
  have c1: "list_all (\<lambda>m. length (own_clones m p) \<le> 1) ms"
    using attached_own [OF a] by (simp add: list_all_iff)
  have c2: "list_all (\<lambda>n. length (owners n ms) = 1) (body p)"
    using attached_owner [OF a] by (simp add: list_all_iff)
  have c3: "clone_count p = length (references ms)"
    using a by (rule attached_count(1))
  have c4: "clone_count p \<le> length (fst s)"
    using c3 references_length [of ms] l by simp
  have c8: "\<forall>j. j < length (fst s) \<and> j \<noteq> i \<longrightarrow>
          own_clones (ms ! j) (snd (shared_step (i, RemoveVisual) (ms, p))) = own_clones (ms ! j) p"
    using shared_remove(4) [OF a i] l by simp
  have c9: "length (own_clones (ms' ! i) p') = 1"
    using shared_create(1) [OF a i, of el x y isChip] by (simp add: c)
  have "clone_count p' = Suc (clone_count p - length (own_clones (ms ! i) p))"
    using shared_create(2) [OF a i, of el x y isChip] by (simp add: c)
  then have c10: "clone_count (snd (shared_step (i, RemoveVisual) (ms', p')))
      = clone_count p - length (own_clones (ms ! i) p)"
    using shared_remove(3) [OF a' i'] c9 by simp
  show ?thesis
    unfolding t c fst_conv snd_conv
    by (intro conjI c1 c2 c3 c4 shared_remove(1,2,3) [OF a i] c8 c9 c10)
qed

text \<open>
  Two managers in one document: the first drags a card, the second drags another, the first
  moves and then drags a third card without an end in between. Each manager has one clone;
  when the first removes its drag visual, the clone of the second stays.
\<close>

theorem one_clone_per_manager_witness:
  "attached two_managers \<and> 0 < length (fst two_managers)
   \<and> clone_count (snd (shared_run
        [(0, CreateVisual (entity_wrapper ''light.a'') 10 20 False),
         (1, CreateVisual (entity_wrapper ''light.b'') 50 60 False),
         (0, UpdateVisual 30 40),
         (0, CreateVisual (entity_wrapper ''light.c'') 70 80 False)] two_managers)) = 2
   \<and> map node (body (snd (shared_run
        [(0, CreateVisual (entity_wrapper ''light.a'') 10 20 False),
         (1, CreateVisual (entity_wrapper ''light.b'') 50 60 False),
         (0, UpdateVisual 30 40),
         (0, CreateVisual (entity_wrapper ''light.c'') 70 80 False)] two_managers))) = [1, 2]
   \<and> map node (body (snd (shared_step (0, RemoveVisual) (shared_run
        [(0, CreateVisual (entity_wrapper ''light.a'') 10 20 False),
         (1, CreateVisual (entity_wrapper ''light.b'') 50 60 False),
         (0, UpdateVisual 30 40),
         (0, CreateVisual (entity_wrapper ''light.c'') 70 80 False)] two_managers)))) = [1]"
proof -
  have t: "attached two_managers" and l: "0 < length (fst two_managers)"
    by (simp_all add: attached_def two_managers_def references_def constructor_def
        injectGlobalStyles_def fresh_process_def Let_def)
  show ?thesis
    using t l one_clone_per_manager [OF t l, of
        "[(0, CreateVisual (entity_wrapper ''light.a'') 10 20 False),
          (1, CreateVisual (entity_wrapper ''light.b'') 50 60 False),
          (0, UpdateVisual 30 40),
          (0, CreateVisual (entity_wrapper ''light.c'') 70 80 False)]"]
    by (simp add: shared_run_def shared_step_def createDragVisual_def removeDragVisual_def
        updateDragVisual_def move_clone_def two_managers_def constructor_def injectGlobalStyles_def
        fresh_process_def clone_count_def Let_def)
qed

text \<open>
  Claim C4 as stated fails across managers: \<open>dragVisual\<close> is a field of each manager,
  so two managers that each create a drag visual in the same document leave two clones.
\<close>

theorem two_managers_two_clones:
  "clone_count (snd (shared_run
        [(0, CreateVisual (entity_wrapper ''light.a'') 10 20 False),
         (1, CreateVisual (entity_wrapper ''light.b'') 50 60 False)] two_managers)) = 2"
  by (simp add: shared_run_def shared_step_def createDragVisual_def removeDragVisual_def
      two_managers_def constructor_def injectGlobalStyles_def fresh_process_def clone_count_def Let_def)

subsection \<open>What each statement leaves unchanged\<close>

lemmas stmt_defs = set_isReordering_def update_item_def classList_add_def classList_remove_def
  set_controls_visibility_def read_start_position_def read_move_position_def on_visual_def
  create_visual_for_item_def update_visual_to_last_def addEventListener_def
  removeEventListener_def vibrate_def set_userSelect_def reconnectSingleCameraManager_def
  persist_def save_if_area_def stop_scrolling_def carousel_update_scroll_def
  chips_update_scroll_def update_carousel_of_item_def update_chips_of_item_def
  updateCarouselConfiguration_def updateChipsOrder_def

lemma removeDragVisual_frame [simp]:
  "isReordering (snd (removeDragVisual (m, p))) = isReordering p"
  "persisted (snd (removeDragVisual (m, p))) = persisted p"
  "document_listeners (snd (removeDragVisual (m, p))) = document_listeners p"
  "customizationManager (fst (removeDragVisual (m, p))) = customizationManager m"
  "context_name (fst (removeDragVisual (m, p))) = context_name m"
  "dragVisual (fst (removeDragVisual (m, p))) = None"
  by (simp_all add: removeDragVisual_def split: option.splits)

lemma createDragVisual_frame [simp]:
  "isReordering (snd (createDragVisual el x y c (m, p))) = isReordering p"
  "persisted (snd (createDragVisual el x y c (m, p))) = persisted p"
  "document_listeners (snd (createDragVisual el x y c (m, p))) = document_listeners p"
  "customizationManager (fst (createDragVisual el x y c (m, p))) = customizationManager m"
  "context_name (fst (createDragVisual el x y c (m, p))) = context_name m"
  by (simp_all add: createDragVisual_def removeDragVisual_def split: option.splits)

lemma updateDragVisual_frame [simp]:
  "isReordering (snd (updateDragVisual x y (m, p))) = isReordering p"
  "persisted (snd (updateDragVisual x y (m, p))) = persisted p"
  "document_listeners (snd (updateDragVisual x y (m, p))) = document_listeners p"
  "customizationManager (fst (updateDragVisual x y (m, p))) = customizationManager m"
  "context_name (fst (updateDragVisual x y (m, p))) = context_name m"
  "dragVisual (fst (updateDragVisual x y (m, p))) = dragVisual m"
  by (simp_all add: updateDragVisual_def split: option.splits)


lemma isReordering_frame [simp]:
  "isReordering (proc (classList_add evt cls w)) = isReordering (proc (w))"
  "isReordering (proc (classList_remove evt cls w)) = isReordering (proc (w))"
  "isReordering (proc (set_controls_visibility v w)) = isReordering (proc (w))"
  "isReordering (proc (read_start_position evt w)) = isReordering (proc (w))"
  "isReordering (proc (read_move_position e w)) = isReordering (proc (w))"
  "isReordering (proc (create_visual_for_item evt isChip w)) = isReordering (proc (w))"
  "isReordering (proc (on_visual removeDragVisual w)) = isReordering (proc (w))"
  "isReordering (proc (update_visual_to_last w)) = isReordering (proc (w))"
  "isReordering (proc (addEventListener t w)) = isReordering (proc (w))"
  "isReordering (proc (removeEventListener t w)) = isReordering (proc (w))"
  "isReordering (proc (vibrate ms w)) = isReordering (proc (w))"
  "isReordering (proc (set_userSelect v w)) = isReordering (proc (w))"
  "isReordering (proc (reconnectSingleCameraManager evt w)) = isReordering (proc (w))"
  "isReordering (proc (save_if_area w)) = isReordering (proc (w))"
  "isReordering (proc (stop_scrolling w)) = isReordering (proc (w))"
  "isReordering (proc (carousel_update_scroll rnd w)) = isReordering (proc (w))"
  "isReordering (proc (chips_update_scroll rnd w)) = isReordering (proc (w))"
  "isReordering (proc (update_carousel_of_item w)) = isReordering (proc (w))"
  "isReordering (proc (update_chips_of_item w)) = isReordering (proc (w))"
  by (simp_all add: stmt_defs split: option.splits)

lemma persisted_frame [simp]:
  "persisted (proc (set_isReordering b w)) = persisted (proc (w))"
  "persisted (proc (classList_add evt cls w)) = persisted (proc (w))"
  "persisted (proc (classList_remove evt cls w)) = persisted (proc (w))"
  "persisted (proc (set_controls_visibility v w)) = persisted (proc (w))"
  "persisted (proc (read_start_position evt w)) = persisted (proc (w))"
  "persisted (proc (read_move_position e w)) = persisted (proc (w))"
  "persisted (proc (create_visual_for_item evt isChip w)) = persisted (proc (w))"
  "persisted (proc (on_visual removeDragVisual w)) = persisted (proc (w))"
  "persisted (proc (update_visual_to_last w)) = persisted (proc (w))"
  "persisted (proc (addEventListener t w)) = persisted (proc (w))"
  "persisted (proc (removeEventListener t w)) = persisted (proc (w))"
  "persisted (proc (vibrate ms w)) = persisted (proc (w))"
  "persisted (proc (set_userSelect v w)) = persisted (proc (w))"
  "persisted (proc (reconnectSingleCameraManager evt w)) = persisted (proc (w))"
  "persisted (proc (stop_scrolling w)) = persisted (proc (w))"
  "persisted (proc (carousel_update_scroll rnd w)) = persisted (proc (w))"
  "persisted (proc (chips_update_scroll rnd w)) = persisted (proc (w))"
  by (simp_all add: stmt_defs split: option.splits)

lemma document_listeners_frame [simp]:
  "document_listeners (proc (set_isReordering b w)) = document_listeners (proc (w))"
  "document_listeners (proc (classList_add evt cls w)) = document_listeners (proc (w))"
  "document_listeners (proc (classList_remove evt cls w)) = document_listeners (proc (w))"
  "document_listeners (proc (set_controls_visibility v w)) = document_listeners (proc (w))"
  "document_listeners (proc (read_start_position evt w)) = document_listeners (proc (w))"
  "document_listeners (proc (read_move_position e w)) = document_listeners (proc (w))"
  "document_listeners (proc (create_visual_for_item evt isChip w)) = document_listeners (proc (w))"
  "document_listeners (proc (on_visual removeDragVisual w)) = document_listeners (proc (w))"
  "document_listeners (proc (update_visual_to_last w)) = document_listeners (proc (w))"
  "document_listeners (proc (vibrate ms w)) = document_listeners (proc (w))"
  "document_listeners (proc (set_userSelect v w)) = document_listeners (proc (w))"
  "document_listeners (proc (reconnectSingleCameraManager evt w)) = document_listeners (proc (w))"
  "document_listeners (proc (save_if_area w)) = document_listeners (proc (w))"
  "document_listeners (proc (stop_scrolling w)) = document_listeners (proc (w))"
  "document_listeners (proc (carousel_update_scroll rnd w)) = document_listeners (proc (w))"
  "document_listeners (proc (chips_update_scroll rnd w)) = document_listeners (proc (w))"
  "document_listeners (proc (update_carousel_of_item w)) = document_listeners (proc (w))"
  "document_listeners (proc (update_chips_of_item w)) = document_listeners (proc (w))"
  by (simp_all add: stmt_defs split: option.splits)

lemma customizationManager_frame [simp]:
  "customizationManager (mgr (set_isReordering b w)) = customizationManager (mgr (w))"
  "customizationManager (mgr (classList_add evt cls w)) = customizationManager (mgr (w))"
  "customizationManager (mgr (classList_remove evt cls w)) = customizationManager (mgr (w))"
  "customizationManager (mgr (set_controls_visibility v w)) = customizationManager (mgr (w))"
  "customizationManager (mgr (read_start_position evt w)) = customizationManager (mgr (w))"
  "customizationManager (mgr (read_move_position e w)) = customizationManager (mgr (w))"
  "customizationManager (mgr (create_visual_for_item evt isChip w)) = customizationManager (mgr (w))"
  "customizationManager (mgr (on_visual removeDragVisual w)) = customizationManager (mgr (w))"
  "customizationManager (mgr (update_visual_to_last w)) = customizationManager (mgr (w))"
  "customizationManager (mgr (addEventListener t w)) = customizationManager (mgr (w))"
  "customizationManager (mgr (removeEventListener t w)) = customizationManager (mgr (w))"
  "customizationManager (mgr (vibrate ms w)) = customizationManager (mgr (w))"
  "customizationManager (mgr (set_userSelect v w)) = customizationManager (mgr (w))"
  "customizationManager (mgr (reconnectSingleCameraManager evt w)) = customizationManager (mgr (w))"
  "customizationManager (mgr (save_if_area w)) = customizationManager (mgr (w))"
  "customizationManager (mgr (stop_scrolling w)) = customizationManager (mgr (w))"
  "customizationManager (mgr (carousel_update_scroll rnd w)) = customizationManager (mgr (w))"
  "customizationManager (mgr (chips_update_scroll rnd w)) = customizationManager (mgr (w))"
  "customizationManager (mgr (update_carousel_of_item w)) = customizationManager (mgr (w))"
  "customizationManager (mgr (update_chips_of_item w)) = customizationManager (mgr (w))"
  by (simp_all add: stmt_defs split: option.splits)

lemma context_name_frame [simp]:
  "context_name (mgr (set_isReordering b w)) = context_name (mgr (w))"
  "context_name (mgr (classList_add evt cls w)) = context_name (mgr (w))"
  "context_name (mgr (classList_remove evt cls w)) = context_name (mgr (w))"
  "context_name (mgr (set_controls_visibility v w)) = context_name (mgr (w))"
  "context_name (mgr (read_start_position evt w)) = context_name (mgr (w))"
  "context_name (mgr (read_move_position e w)) = context_name (mgr (w))"
  "context_name (mgr (create_visual_for_item evt isChip w)) = context_name (mgr (w))"
  "context_name (mgr (on_visual removeDragVisual w)) = context_name (mgr (w))"
  "context_name (mgr (update_visual_to_last w)) = context_name (mgr (w))"
  "context_name (mgr (addEventListener t w)) = context_name (mgr (w))"
  "context_name (mgr (removeEventListener t w)) = context_name (mgr (w))"
  "context_name (mgr (vibrate ms w)) = context_name (mgr (w))"
  "context_name (mgr (set_userSelect v w)) = context_name (mgr (w))"
  "context_name (mgr (reconnectSingleCameraManager evt w)) = context_name (mgr (w))"
  "context_name (mgr (save_if_area w)) = context_name (mgr (w))"
  "context_name (mgr (stop_scrolling w)) = context_name (mgr (w))"
  "context_name (mgr (carousel_update_scroll rnd w)) = context_name (mgr (w))"
  "context_name (mgr (chips_update_scroll rnd w)) = context_name (mgr (w))"
  "context_name (mgr (update_carousel_of_item w)) = context_name (mgr (w))"
  "context_name (mgr (update_chips_of_item w)) = context_name (mgr (w))"
  by (simp_all add: stmt_defs split: option.splits)

lemma areaId_frame [simp]:
  "areaId (clo (set_isReordering b w)) = areaId (clo (w))"
  "areaId (clo (classList_add evt cls w)) = areaId (clo (w))"
  "areaId (clo (classList_remove evt cls w)) = areaId (clo (w))"
  "areaId (clo (set_controls_visibility v w)) = areaId (clo (w))"
  "areaId (clo (read_start_position evt w)) = areaId (clo (w))"
  "areaId (clo (read_move_position e w)) = areaId (clo (w))"
  "areaId (clo (create_visual_for_item evt isChip w)) = areaId (clo (w))"
  "areaId (clo (on_visual removeDragVisual w)) = areaId (clo (w))"
  "areaId (clo (update_visual_to_last w)) = areaId (clo (w))"
  "areaId (clo (addEventListener t w)) = areaId (clo (w))"
  "areaId (clo (removeEventListener t w)) = areaId (clo (w))"
  "areaId (clo (vibrate ms w)) = areaId (clo (w))"
  "areaId (clo (set_userSelect v w)) = areaId (clo (w))"
  "areaId (clo (reconnectSingleCameraManager evt w)) = areaId (clo (w))"
  "areaId (clo (save_if_area w)) = areaId (clo (w))"
  "areaId (clo (stop_scrolling w)) = areaId (clo (w))"
  "areaId (clo (carousel_update_scroll rnd w)) = areaId (clo (w))"
  "areaId (clo (chips_update_scroll rnd w)) = areaId (clo (w))"
  "areaId (clo (update_carousel_of_item w)) = areaId (clo (w))"
  "areaId (clo (update_chips_of_item w)) = areaId (clo (w))"
  by (simp_all add: stmt_defs split: option.splits)

lemma onMove_frame [simp]:
  "onMove (clo (set_isReordering b w)) = onMove (clo (w))"
  "onMove (clo (classList_add evt cls w)) = onMove (clo (w))"
  "onMove (clo (classList_remove evt cls w)) = onMove (clo (w))"
  "onMove (clo (set_controls_visibility v w)) = onMove (clo (w))"
  "onMove (clo (read_start_position evt w)) = onMove (clo (w))"
  "onMove (clo (read_move_position e w)) = onMove (clo (w))"
  "onMove (clo (create_visual_for_item evt isChip w)) = onMove (clo (w))"
  "onMove (clo (on_visual removeDragVisual w)) = onMove (clo (w))"
  "onMove (clo (update_visual_to_last w)) = onMove (clo (w))"
  "onMove (clo (addEventListener t w)) = onMove (clo (w))"
  "onMove (clo (removeEventListener t w)) = onMove (clo (w))"
  "onMove (clo (vibrate ms w)) = onMove (clo (w))"
  "onMove (clo (set_userSelect v w)) = onMove (clo (w))"
  "onMove (clo (reconnectSingleCameraManager evt w)) = onMove (clo (w))"
  "onMove (clo (save_if_area w)) = onMove (clo (w))"
  "onMove (clo (stop_scrolling w)) = onMove (clo (w))"
  "onMove (clo (carousel_update_scroll rnd w)) = onMove (clo (w))"
  "onMove (clo (chips_update_scroll rnd w)) = onMove (clo (w))"
  "onMove (clo (update_carousel_of_item w)) = onMove (clo (w))"
  "onMove (clo (update_chips_of_item w)) = onMove (clo (w))"
  by (simp_all add: stmt_defs split: option.splits)

lemma outer_frame [simp]:
  "outer (clo (set_isReordering b w)) = outer (clo (w))"
  "outer (clo (classList_add evt cls w)) = outer (clo (w))"
  "outer (clo (classList_remove evt cls w)) = outer (clo (w))"
  "outer (clo (set_controls_visibility v w)) = outer (clo (w))"
  "outer (clo (read_start_position evt w)) = outer (clo (w))"
  "outer (clo (read_move_position e w)) = outer (clo (w))"
  "outer (clo (create_visual_for_item evt isChip w)) = outer (clo (w))"
  "outer (clo (on_visual removeDragVisual w)) = outer (clo (w))"
  "outer (clo (update_visual_to_last w)) = outer (clo (w))"
  "outer (clo (addEventListener t w)) = outer (clo (w))"
  "outer (clo (removeEventListener t w)) = outer (clo (w))"
  "outer (clo (vibrate ms w)) = outer (clo (w))"
  "outer (clo (set_userSelect v w)) = outer (clo (w))"
  "outer (clo (reconnectSingleCameraManager evt w)) = outer (clo (w))"
  "outer (clo (save_if_area w)) = outer (clo (w))"
  "outer (clo (stop_scrolling w)) = outer (clo (w))"
  "outer (clo (carousel_update_scroll rnd w)) = outer (clo (w))"
  "outer (clo (chips_update_scroll rnd w)) = outer (clo (w))"
  "outer (clo (update_carousel_of_item w)) = outer (clo (w))"
  "outer (clo (update_chips_of_item w)) = outer (clo (w))"
  by (simp_all add: stmt_defs split: option.splits)

lemma container_classList_frame [simp]:
  "container_classList (cont (clo (set_isReordering b w))) = container_classList (cont (clo (w)))"
  "container_classList (cont (clo (classList_add evt cls w))) = container_classList (cont (clo (w)))"
  "container_classList (cont (clo (classList_remove evt cls w))) = container_classList (cont (clo (w)))"
  "container_classList (cont (clo (set_controls_visibility v w))) = container_classList (cont (clo (w)))"
  "container_classList (cont (clo (read_start_position evt w))) = container_classList (cont (clo (w)))"
  "container_classList (cont (clo (read_move_position e w))) = container_classList (cont (clo (w)))"
  "container_classList (cont (clo (create_visual_for_item evt isChip w))) = container_classList (cont (clo (w)))"
  "container_classList (cont (clo (on_visual removeDragVisual w))) = container_classList (cont (clo (w)))"
  "container_classList (cont (clo (update_visual_to_last w))) = container_classList (cont (clo (w)))"
  "container_classList (cont (clo (addEventListener t w))) = container_classList (cont (clo (w)))"
  "container_classList (cont (clo (removeEventListener t w))) = container_classList (cont (clo (w)))"
  "container_classList (cont (clo (vibrate ms w))) = container_classList (cont (clo (w)))"
  "container_classList (cont (clo (set_userSelect v w))) = container_classList (cont (clo (w)))"
  "container_classList (cont (clo (reconnectSingleCameraManager evt w))) = container_classList (cont (clo (w)))"
  "container_classList (cont (clo (save_if_area w))) = container_classList (cont (clo (w)))"
  "container_classList (cont (clo (stop_scrolling w))) = container_classList (cont (clo (w)))"
  "container_classList (cont (clo (carousel_update_scroll rnd w))) = container_classList (cont (clo (w)))"
  "container_classList (cont (clo (chips_update_scroll rnd w))) = container_classList (cont (clo (w)))"
  "container_classList (cont (clo (update_carousel_of_item w))) = container_classList (cont (clo (w)))"
  "container_classList (cont (clo (update_chips_of_item w))) = container_classList (cont (clo (w)))"
  by (simp_all add: stmt_defs split: option.splits)

lemma data_areaId_frame [simp]:
  "data_areaId (cont (clo (set_isReordering b w))) = data_areaId (cont (clo (w)))"
  "data_areaId (cont (clo (classList_add evt cls w))) = data_areaId (cont (clo (w)))"
  "data_areaId (cont (clo (classList_remove evt cls w))) = data_areaId (cont (clo (w)))"
  "data_areaId (cont (clo (set_controls_visibility v w))) = data_areaId (cont (clo (w)))"
  "data_areaId (cont (clo (read_start_position evt w))) = data_areaId (cont (clo (w)))"
  "data_areaId (cont (clo (read_move_position e w))) = data_areaId (cont (clo (w)))"
  "data_areaId (cont (clo (create_visual_for_item evt isChip w))) = data_areaId (cont (clo (w)))"
  "data_areaId (cont (clo (on_visual removeDragVisual w))) = data_areaId (cont (clo (w)))"
  "data_areaId (cont (clo (update_visual_to_last w))) = data_areaId (cont (clo (w)))"
  "data_areaId (cont (clo (addEventListener t w))) = data_areaId (cont (clo (w)))"
  "data_areaId (cont (clo (removeEventListener t w))) = data_areaId (cont (clo (w)))"
  "data_areaId (cont (clo (vibrate ms w))) = data_areaId (cont (clo (w)))"
  "data_areaId (cont (clo (set_userSelect v w))) = data_areaId (cont (clo (w)))"
  "data_areaId (cont (clo (reconnectSingleCameraManager evt w))) = data_areaId (cont (clo (w)))"
  "data_areaId (cont (clo (save_if_area w))) = data_areaId (cont (clo (w)))"
  "data_areaId (cont (clo (stop_scrolling w))) = data_areaId (cont (clo (w)))"
  "data_areaId (cont (clo (carousel_update_scroll rnd w))) = data_areaId (cont (clo (w)))"
  "data_areaId (cont (clo (chips_update_scroll rnd w))) = data_areaId (cont (clo (w)))"
  "data_areaId (cont (clo (update_carousel_of_item w))) = data_areaId (cont (clo (w)))"
  "data_areaId (cont (clo (update_chips_of_item w))) = data_areaId (cont (clo (w)))"
  by (simp_all add: stmt_defs split: option.splits)

lemma data_sectionType_frame [simp]:
  "data_sectionType (cont (clo (set_isReordering b w))) = data_sectionType (cont (clo (w)))"
  "data_sectionType (cont (clo (classList_add evt cls w))) = data_sectionType (cont (clo (w)))"
  "data_sectionType (cont (clo (classList_remove evt cls w))) = data_sectionType (cont (clo (w)))"
  "data_sectionType (cont (clo (set_controls_visibility v w))) = data_sectionType (cont (clo (w)))"
  "data_sectionType (cont (clo (read_start_position evt w))) = data_sectionType (cont (clo (w)))"
  "data_sectionType (cont (clo (read_move_position e w))) = data_sectionType (cont (clo (w)))"
  "data_sectionType (cont (clo (create_visual_for_item evt isChip w))) = data_sectionType (cont (clo (w)))"
  "data_sectionType (cont (clo (on_visual removeDragVisual w))) = data_sectionType (cont (clo (w)))"
  "data_sectionType (cont (clo (update_visual_to_last w))) = data_sectionType (cont (clo (w)))"
  "data_sectionType (cont (clo (addEventListener t w))) = data_sectionType (cont (clo (w)))"
  "data_sectionType (cont (clo (removeEventListener t w))) = data_sectionType (cont (clo (w)))"
  "data_sectionType (cont (clo (vibrate ms w))) = data_sectionType (cont (clo (w)))"
  "data_sectionType (cont (clo (set_userSelect v w))) = data_sectionType (cont (clo (w)))"
  "data_sectionType (cont (clo (reconnectSingleCameraManager evt w))) = data_sectionType (cont (clo (w)))"
  "data_sectionType (cont (clo (save_if_area w))) = data_sectionType (cont (clo (w)))"
  "data_sectionType (cont (clo (stop_scrolling w))) = data_sectionType (cont (clo (w)))"
  "data_sectionType (cont (clo (carousel_update_scroll rnd w))) = data_sectionType (cont (clo (w)))"
  "data_sectionType (cont (clo (chips_update_scroll rnd w))) = data_sectionType (cont (clo (w)))"
  "data_sectionType (cont (clo (update_carousel_of_item w))) = data_sectionType (cont (clo (w)))"
  "data_sectionType (cont (clo (update_chips_of_item w))) = data_sectionType (cont (clo (w)))"
  by (simp_all add: stmt_defs split: option.splits)

lemma length_children_frame [simp]:
  "length (children (cont (clo (set_isReordering b w)))) = length (children (cont (clo (w))))"
  "length (children (cont (clo (classList_add evt cls w)))) = length (children (cont (clo (w))))"
  "length (children (cont (clo (classList_remove evt cls w)))) = length (children (cont (clo (w))))"
  "length (children (cont (clo (set_controls_visibility v w)))) = length (children (cont (clo (w))))"
  "length (children (cont (clo (read_start_position evt w)))) = length (children (cont (clo (w))))"
  "length (children (cont (clo (read_move_position e w)))) = length (children (cont (clo (w))))"
  "length (children (cont (clo (create_visual_for_item evt isChip w)))) = length (children (cont (clo (w))))"
  "length (children (cont (clo (on_visual removeDragVisual w)))) = length (children (cont (clo (w))))"
  "length (children (cont (clo (update_visual_to_last w)))) = length (children (cont (clo (w))))"
  "length (children (cont (clo (addEventListener t w)))) = length (children (cont (clo (w))))"
  "length (children (cont (clo (removeEventListener t w)))) = length (children (cont (clo (w))))"
  "length (children (cont (clo (vibrate ms w)))) = length (children (cont (clo (w))))"
  "length (children (cont (clo (set_userSelect v w)))) = length (children (cont (clo (w))))"
  "length (children (cont (clo (reconnectSingleCameraManager evt w)))) = length (children (cont (clo (w))))"
  "length (children (cont (clo (save_if_area w)))) = length (children (cont (clo (w))))"
  "length (children (cont (clo (stop_scrolling w)))) = length (children (cont (clo (w))))"
  "length (children (cont (clo (carousel_update_scroll rnd w)))) = length (children (cont (clo (w))))"
  "length (children (cont (clo (chips_update_scroll rnd w)))) = length (children (cont (clo (w))))"
  "length (children (cont (clo (update_carousel_of_item w)))) = length (children (cont (clo (w))))"
  "length (children (cont (clo (update_chips_of_item w)))) = length (children (cont (clo (w))))"
  by (simp_all add: stmt_defs split: option.splits)

lemma dragVisual_frame [simp]:
  "dragVisual (mgr (set_isReordering b w)) = dragVisual (mgr (w))"
  "dragVisual (mgr (classList_add evt cls w)) = dragVisual (mgr (w))"
  "dragVisual (mgr (classList_remove evt cls w)) = dragVisual (mgr (w))"
  "dragVisual (mgr (set_controls_visibility v w)) = dragVisual (mgr (w))"
  "dragVisual (mgr (read_start_position evt w)) = dragVisual (mgr (w))"
  "dragVisual (mgr (read_move_position e w)) = dragVisual (mgr (w))"
  "dragVisual (mgr (addEventListener t w)) = dragVisual (mgr (w))"
  "dragVisual (mgr (removeEventListener t w)) = dragVisual (mgr (w))"
  "dragVisual (mgr (vibrate ms w)) = dragVisual (mgr (w))"
  "dragVisual (mgr (set_userSelect v w)) = dragVisual (mgr (w))"
  "dragVisual (mgr (reconnectSingleCameraManager evt w)) = dragVisual (mgr (w))"
  "dragVisual (mgr (save_if_area w)) = dragVisual (mgr (w))"
  "dragVisual (mgr (stop_scrolling w)) = dragVisual (mgr (w))"
  "dragVisual (mgr (carousel_update_scroll rnd w)) = dragVisual (mgr (w))"
  "dragVisual (mgr (chips_update_scroll rnd w)) = dragVisual (mgr (w))"
  "dragVisual (mgr (update_carousel_of_item w)) = dragVisual (mgr (w))"
  "dragVisual (mgr (update_chips_of_item w)) = dragVisual (mgr (w))"
  by (simp_all add: stmt_defs split: option.splits)

lemma body_frame [simp]:
  "body (proc (set_isReordering b w)) = body (proc (w))"
  "body (proc (classList_add evt cls w)) = body (proc (w))"
  "body (proc (classList_remove evt cls w)) = body (proc (w))"
  "body (proc (set_controls_visibility v w)) = body (proc (w))"
  "body (proc (read_start_position evt w)) = body (proc (w))"
  "body (proc (read_move_position e w)) = body (proc (w))"
  "body (proc (addEventListener t w)) = body (proc (w))"
  "body (proc (removeEventListener t w)) = body (proc (w))"
  "body (proc (vibrate ms w)) = body (proc (w))"
  "body (proc (set_userSelect v w)) = body (proc (w))"
  "body (proc (reconnectSingleCameraManager evt w)) = body (proc (w))"
  "body (proc (save_if_area w)) = body (proc (w))"
  "body (proc (stop_scrolling w)) = body (proc (w))"
  "body (proc (carousel_update_scroll rnd w)) = body (proc (w))"
  "body (proc (chips_update_scroll rnd w)) = body (proc (w))"
  "body (proc (update_carousel_of_item w)) = body (proc (w))"
  "body (proc (update_chips_of_item w)) = body (proc (w))"
  by (simp_all add: stmt_defs split: option.splits)

lemma update_item_map:
  assumes "\<And>e. g (f e) = g e"
  shows "map g (children (cont (clo (update_item i f w)))) = map g (children (cont (clo w)))"
  using assms by (simp add: update_item_def map_update list_update_same_conv)

lemmas stmt_defs' = set_isReordering_def classList_add_def classList_remove_def
  set_controls_visibility_def read_start_position_def read_move_position_def on_visual_def
  create_visual_for_item_def update_visual_to_last_def addEventListener_def
  removeEventListener_def vibrate_def set_userSelect_def reconnectSingleCameraManager_def
  persist_def save_if_area_def stop_scrolling_def carousel_update_scroll_def
  chips_update_scroll_def update_carousel_of_item_def update_chips_of_item_def
  updateCarouselConfiguration_def updateChipsOrder_def

lemma dom_order_frame [simp]:
  "dom_order (set_isReordering b w) = dom_order (w)"
  "dom_order (classList_add evt cls w) = dom_order (w)"
  "dom_order (classList_remove evt cls w) = dom_order (w)"
  "dom_order (set_controls_visibility v w) = dom_order (w)"
  "dom_order (read_start_position evt w) = dom_order (w)"
  "dom_order (read_move_position e w) = dom_order (w)"
  "dom_order (create_visual_for_item evt isChip w) = dom_order (w)"
  "dom_order (on_visual removeDragVisual w) = dom_order (w)"
  "dom_order (update_visual_to_last w) = dom_order (w)"
  "dom_order (addEventListener t w) = dom_order (w)"
  "dom_order (removeEventListener t w) = dom_order (w)"
  "dom_order (vibrate ms w) = dom_order (w)"
  "dom_order (set_userSelect v w) = dom_order (w)"
  "dom_order (reconnectSingleCameraManager evt w) = dom_order (w)"
  "dom_order (save_if_area w) = dom_order (w)"
  "dom_order (stop_scrolling w) = dom_order (w)"
  "dom_order (carousel_update_scroll rnd w) = dom_order (w)"
  "dom_order (chips_update_scroll rnd w) = dom_order (w)"
  "dom_order (update_carousel_of_item w) = dom_order (w)"
  "dom_order (update_chips_of_item w) = dom_order (w)"
  by (simp_all add: dom_order_def stmt_defs' update_item_map split: option.splits)

lemma controls_frame [simp]:
  "map entity_controls (children (cont (clo (set_isReordering b w)))) = map entity_controls (children (cont (clo (w))))"
  "map entity_controls (children (cont (clo (classList_add evt cls w)))) = map entity_controls (children (cont (clo (w))))"
  "map entity_controls (children (cont (clo (classList_remove evt cls w)))) = map entity_controls (children (cont (clo (w))))"
  "map entity_controls (children (cont (clo (read_start_position evt w)))) = map entity_controls (children (cont (clo (w))))"
  "map entity_controls (children (cont (clo (read_move_position e w)))) = map entity_controls (children (cont (clo (w))))"
  "map entity_controls (children (cont (clo (create_visual_for_item evt isChip w)))) = map entity_controls (children (cont (clo (w))))"
  "map entity_controls (children (cont (clo (on_visual removeDragVisual w)))) = map entity_controls (children (cont (clo (w))))"
  "map entity_controls (children (cont (clo (update_visual_to_last w)))) = map entity_controls (children (cont (clo (w))))"
  "map entity_controls (children (cont (clo (addEventListener t w)))) = map entity_controls (children (cont (clo (w))))"
  "map entity_controls (children (cont (clo (removeEventListener t w)))) = map entity_controls (children (cont (clo (w))))"
  "map entity_controls (children (cont (clo (vibrate ms w)))) = map entity_controls (children (cont (clo (w))))"
  "map entity_controls (children (cont (clo (set_userSelect v w)))) = map entity_controls (children (cont (clo (w))))"
  "map entity_controls (children (cont (clo (reconnectSingleCameraManager evt w)))) = map entity_controls (children (cont (clo (w))))"
  "map entity_controls (children (cont (clo (save_if_area w)))) = map entity_controls (children (cont (clo (w))))"
  "map entity_controls (children (cont (clo (stop_scrolling w)))) = map entity_controls (children (cont (clo (w))))"
  "map entity_controls (children (cont (clo (carousel_update_scroll rnd w)))) = map entity_controls (children (cont (clo (w))))"
  "map entity_controls (children (cont (clo (chips_update_scroll rnd w)))) = map entity_controls (children (cont (clo (w))))"
  "map entity_controls (children (cont (clo (update_carousel_of_item w)))) = map entity_controls (children (cont (clo (w))))"
  "map entity_controls (children (cont (clo (update_chips_of_item w)))) = map entity_controls (children (cont (clo (w))))"
  by (simp_all add: stmt_defs' update_item_map split: option.splits)

lemma visual_process_frame [simp]:
  "userSelect (snd (removeDragVisual (m, p))) = userSelect p"
  "vibrated (snd (removeDragVisual (m, p))) = vibrated p"
  "canVibrate (snd (removeDragVisual (m, p))) = canVibrate p"
  "reloaded (snd (removeDragVisual (m, p))) = reloaded p"
  "userSelect (snd (createDragVisual el x y c (m, p))) = userSelect p"
  "vibrated (snd (createDragVisual el x y c (m, p))) = vibrated p"
  "canVibrate (snd (createDragVisual el x y c (m, p))) = canVibrate p"
  "reloaded (snd (createDragVisual el x y c (m, p))) = reloaded p"
  "userSelect (snd (updateDragVisual x y (m, p))) = userSelect p"
  "vibrated (snd (updateDragVisual x y (m, p))) = vibrated p"
  "canVibrate (snd (updateDragVisual x y (m, p))) = canVibrate p"
  "reloaded (snd (updateDragVisual x y (m, p))) = reloaded p"
  by (simp_all add: removeDragVisual_def createDragVisual_def updateDragVisual_def split: option.splits)

lemma userSelect_frame [simp]:
  "userSelect (proc (set_isReordering b w)) = userSelect (proc w)"
  "userSelect (proc (classList_add evt cls w)) = userSelect (proc w)"
  "userSelect (proc (classList_remove evt cls w)) = userSelect (proc w)"
  "userSelect (proc (set_controls_visibility v w)) = userSelect (proc w)"
  "userSelect (proc (read_start_position evt w)) = userSelect (proc w)"
  "userSelect (proc (read_move_position e w)) = userSelect (proc w)"
  "userSelect (proc (create_visual_for_item evt isChip w)) = userSelect (proc w)"
  "userSelect (proc (on_visual removeDragVisual w)) = userSelect (proc w)"
  "userSelect (proc (update_visual_to_last w)) = userSelect (proc w)"
  "userSelect (proc (addEventListener t w)) = userSelect (proc w)"
  "userSelect (proc (removeEventListener t w)) = userSelect (proc w)"
  "userSelect (proc (vibrate ms w)) = userSelect (proc w)"
  "userSelect (proc (reconnectSingleCameraManager evt w)) = userSelect (proc w)"
  "userSelect (proc (save_if_area w)) = userSelect (proc w)"
  "userSelect (proc (stop_scrolling w)) = userSelect (proc w)"
  "userSelect (proc (carousel_update_scroll rnd w)) = userSelect (proc w)"
  "userSelect (proc (chips_update_scroll rnd w)) = userSelect (proc w)"
  "userSelect (proc (update_carousel_of_item w)) = userSelect (proc w)"
  "userSelect (proc (update_chips_of_item w)) = userSelect (proc w)"
  by (simp_all add: stmt_defs split: option.splits)

lemma vibrated_frame [simp]:
  "vibrated (proc (set_isReordering b w)) = vibrated (proc w)"
  "vibrated (proc (classList_add evt cls w)) = vibrated (proc w)"
  "vibrated (proc (classList_remove evt cls w)) = vibrated (proc w)"
  "vibrated (proc (set_controls_visibility v w)) = vibrated (proc w)"
  "vibrated (proc (read_start_position evt w)) = vibrated (proc w)"
  "vibrated (proc (read_move_position e w)) = vibrated (proc w)"
  "vibrated (proc (create_visual_for_item evt isChip w)) = vibrated (proc w)"
  "vibrated (proc (on_visual removeDragVisual w)) = vibrated (proc w)"
  "vibrated (proc (update_visual_to_last w)) = vibrated (proc w)"
  "vibrated (proc (addEventListener t w)) = vibrated (proc w)"
  "vibrated (proc (removeEventListener t w)) = vibrated (proc w)"
  "vibrated (proc (set_userSelect v w)) = vibrated (proc w)"
  "vibrated (proc (reconnectSingleCameraManager evt w)) = vibrated (proc w)"
  "vibrated (proc (save_if_area w)) = vibrated (proc w)"
  "vibrated (proc (stop_scrolling w)) = vibrated (proc w)"
  "vibrated (proc (carousel_update_scroll rnd w)) = vibrated (proc w)"
  "vibrated (proc (chips_update_scroll rnd w)) = vibrated (proc w)"
  "vibrated (proc (update_carousel_of_item w)) = vibrated (proc w)"
  "vibrated (proc (update_chips_of_item w)) = vibrated (proc w)"
  by (simp_all add: stmt_defs split: option.splits)

lemma canVibrate_frame [simp]:
  "canVibrate (proc (set_isReordering b w)) = canVibrate (proc w)"
  "canVibrate (proc (classList_add evt cls w)) = canVibrate (proc w)"
  "canVibrate (proc (classList_remove evt cls w)) = canVibrate (proc w)"
  "canVibrate (proc (set_controls_visibility v w)) = canVibrate (proc w)"
  "canVibrate (proc (read_start_position evt w)) = canVibrate (proc w)"
  "canVibrate (proc (read_move_position e w)) = canVibrate (proc w)"
  "canVibrate (proc (create_visual_for_item evt isChip w)) = canVibrate (proc w)"
  "canVibrate (proc (on_visual removeDragVisual w)) = canVibrate (proc w)"
  "canVibrate (proc (update_visual_to_last w)) = canVibrate (proc w)"
  "canVibrate (proc (addEventListener t w)) = canVibrate (proc w)"
  "canVibrate (proc (removeEventListener t w)) = canVibrate (proc w)"
  "canVibrate (proc (vibrate ms w)) = canVibrate (proc w)"
  "canVibrate (proc (set_userSelect v w)) = canVibrate (proc w)"
  "canVibrate (proc (reconnectSingleCameraManager evt w)) = canVibrate (proc w)"
  "canVibrate (proc (save_if_area w)) = canVibrate (proc w)"
  "canVibrate (proc (stop_scrolling w)) = canVibrate (proc w)"
  "canVibrate (proc (carousel_update_scroll rnd w)) = canVibrate (proc w)"
  "canVibrate (proc (chips_update_scroll rnd w)) = canVibrate (proc w)"
  "canVibrate (proc (update_carousel_of_item w)) = canVibrate (proc w)"
  "canVibrate (proc (update_chips_of_item w)) = canVibrate (proc w)"
  by (simp_all add: stmt_defs split: option.splits)

lemma reloaded_frame [simp]:
  "reloaded (proc (set_isReordering b w)) = reloaded (proc w)"
  "reloaded (proc (classList_add evt cls w)) = reloaded (proc w)"
  "reloaded (proc (classList_remove evt cls w)) = reloaded (proc w)"
  "reloaded (proc (set_controls_visibility v w)) = reloaded (proc w)"
  "reloaded (proc (read_start_position evt w)) = reloaded (proc w)"
  "reloaded (proc (read_move_position e w)) = reloaded (proc w)"
  "reloaded (proc (create_visual_for_item evt isChip w)) = reloaded (proc w)"
  "reloaded (proc (on_visual removeDragVisual w)) = reloaded (proc w)"
  "reloaded (proc (update_visual_to_last w)) = reloaded (proc w)"
  "reloaded (proc (addEventListener t w)) = reloaded (proc w)"
  "reloaded (proc (removeEventListener t w)) = reloaded (proc w)"
  "reloaded (proc (vibrate ms w)) = reloaded (proc w)"
  "reloaded (proc (set_userSelect v w)) = reloaded (proc w)"
  "reloaded (proc (save_if_area w)) = reloaded (proc w)"
  "reloaded (proc (stop_scrolling w)) = reloaded (proc w)"
  "reloaded (proc (carousel_update_scroll rnd w)) = reloaded (proc w)"
  "reloaded (proc (chips_update_scroll rnd w)) = reloaded (proc w)"
  "reloaded (proc (update_carousel_of_item w)) = reloaded (proc w)"
  "reloaded (proc (update_chips_of_item w)) = reloaded (proc w)"
  by (simp_all add: stmt_defs split: option.splits)

lemma scroll_frame [simp]:
  "scroll (clo (set_isReordering b w)) = scroll (clo w)"
  "scroll (clo (classList_add evt cls w)) = scroll (clo w)"
  "scroll (clo (classList_remove evt cls w)) = scroll (clo w)"
  "scroll (clo (set_controls_visibility v w)) = scroll (clo w)"
  "scroll (clo (read_start_position evt w)) = scroll (clo w)"
  "scroll (clo (read_move_position e w)) = scroll (clo w)"
  "scroll (clo (create_visual_for_item evt isChip w)) = scroll (clo w)"
  "scroll (clo (on_visual removeDragVisual w)) = scroll (clo w)"
  "scroll (clo (update_visual_to_last w)) = scroll (clo w)"
  "scroll (clo (addEventListener t w)) = scroll (clo w)"
  "scroll (clo (removeEventListener t w)) = scroll (clo w)"
  "scroll (clo (vibrate ms w)) = scroll (clo w)"
  "scroll (clo (set_userSelect v w)) = scroll (clo w)"
  "scroll (clo (reconnectSingleCameraManager evt w)) = scroll (clo w)"
  "scroll (clo (save_if_area w)) = scroll (clo w)"
  "scroll (clo (update_carousel_of_item w)) = scroll (clo w)"
  "scroll (clo (update_chips_of_item w)) = scroll (clo w)"
  by (simp_all add: stmt_defs split: option.splits)

lemma classes_frame [simp]:
  "map classList (children (cont (clo (set_isReordering b w)))) = map classList (children (cont (clo w)))"
  "map classList (children (cont (clo (set_controls_visibility v w)))) = map classList (children (cont (clo w)))"
  "map classList (children (cont (clo (read_start_position evt w)))) = map classList (children (cont (clo w)))"
  "map classList (children (cont (clo (read_move_position e w)))) = map classList (children (cont (clo w)))"
  "map classList (children (cont (clo (create_visual_for_item evt isChip w)))) = map classList (children (cont (clo w)))"
  "map classList (children (cont (clo (on_visual removeDragVisual w)))) = map classList (children (cont (clo w)))"
  "map classList (children (cont (clo (update_visual_to_last w)))) = map classList (children (cont (clo w)))"
  "map classList (children (cont (clo (addEventListener t w)))) = map classList (children (cont (clo w)))"
  "map classList (children (cont (clo (removeEventListener t w)))) = map classList (children (cont (clo w)))"
  "map classList (children (cont (clo (vibrate ms w)))) = map classList (children (cont (clo w)))"
  "map classList (children (cont (clo (set_userSelect v w)))) = map classList (children (cont (clo w)))"
  "map classList (children (cont (clo (reconnectSingleCameraManager evt w)))) = map classList (children (cont (clo w)))"
  "map classList (children (cont (clo (save_if_area w)))) = map classList (children (cont (clo w)))"
  "map classList (children (cont (clo (stop_scrolling w)))) = map classList (children (cont (clo w)))"
  "map classList (children (cont (clo (carousel_update_scroll rnd w)))) = map classList (children (cont (clo w)))"
  "map classList (children (cont (clo (chips_update_scroll rnd w)))) = map classList (children (cont (clo w)))"
  "map classList (children (cont (clo (update_carousel_of_item w)))) = map classList (children (cont (clo w)))"
  "map classList (children (cont (clo (update_chips_of_item w)))) = map classList (children (cont (clo w)))"
  by (simp_all add: stmt_defs' update_item_map comp_def split: option.splits)

lemma home_card_frame [simp]:
  "map home_card (children (cont (clo (set_isReordering b w)))) = map home_card (children (cont (clo w)))"
  "map home_card (children (cont (clo (classList_add evt cls w)))) = map home_card (children (cont (clo w)))"
  "map home_card (children (cont (clo (classList_remove evt cls w)))) = map home_card (children (cont (clo w)))"
  "map home_card (children (cont (clo (set_controls_visibility v w)))) = map home_card (children (cont (clo w)))"
  "map home_card (children (cont (clo (read_start_position evt w)))) = map home_card (children (cont (clo w)))"
  "map home_card (children (cont (clo (read_move_position e w)))) = map home_card (children (cont (clo w)))"
  "map home_card (children (cont (clo (create_visual_for_item evt isChip w)))) = map home_card (children (cont (clo w)))"
  "map home_card (children (cont (clo (on_visual removeDragVisual w)))) = map home_card (children (cont (clo w)))"
  "map home_card (children (cont (clo (update_visual_to_last w)))) = map home_card (children (cont (clo w)))"
  "map home_card (children (cont (clo (addEventListener t w)))) = map home_card (children (cont (clo w)))"
  "map home_card (children (cont (clo (removeEventListener t w)))) = map home_card (children (cont (clo w)))"
  "map home_card (children (cont (clo (vibrate ms w)))) = map home_card (children (cont (clo w)))"
  "map home_card (children (cont (clo (set_userSelect v w)))) = map home_card (children (cont (clo w)))"
  "map home_card (children (cont (clo (reconnectSingleCameraManager evt w)))) = map home_card (children (cont (clo w)))"
  "map home_card (children (cont (clo (save_if_area w)))) = map home_card (children (cont (clo w)))"
  "map home_card (children (cont (clo (stop_scrolling w)))) = map home_card (children (cont (clo w)))"
  "map home_card (children (cont (clo (carousel_update_scroll rnd w)))) = map home_card (children (cont (clo w)))"
  "map home_card (children (cont (clo (chips_update_scroll rnd w)))) = map home_card (children (cont (clo w)))"
  "map home_card (children (cont (clo (update_carousel_of_item w)))) = map home_card (children (cont (clo w)))"
  "map home_card (children (cont (clo (update_chips_of_item w)))) = map home_card (children (cont (clo w)))"
  by (simp_all add: stmt_defs' update_item_map comp_def split: option.splits)

lemma scrollContainer_frame [simp]:
  "scrollContainer (clo (set_isReordering b w)) = scrollContainer (clo w)"
  "scrollContainer (clo (classList_add evt cls w)) = scrollContainer (clo w)"
  "scrollContainer (clo (classList_remove evt cls w)) = scrollContainer (clo w)"
  "scrollContainer (clo (set_controls_visibility v w)) = scrollContainer (clo w)"
  "scrollContainer (clo (read_start_position evt w)) = scrollContainer (clo w)"
  "scrollContainer (clo (read_move_position e w)) = scrollContainer (clo w)"
  "scrollContainer (clo (create_visual_for_item evt isChip w)) = scrollContainer (clo w)"
  "scrollContainer (clo (on_visual removeDragVisual w)) = scrollContainer (clo w)"
  "scrollContainer (clo (update_visual_to_last w)) = scrollContainer (clo w)"
  "scrollContainer (clo (addEventListener t w)) = scrollContainer (clo w)"
  "scrollContainer (clo (removeEventListener t w)) = scrollContainer (clo w)"
  "scrollContainer (clo (vibrate ms w)) = scrollContainer (clo w)"
  "scrollContainer (clo (set_userSelect v w)) = scrollContainer (clo w)"
  "scrollContainer (clo (reconnectSingleCameraManager evt w)) = scrollContainer (clo w)"
  "scrollContainer (clo (save_if_area w)) = scrollContainer (clo w)"
  "scrollContainer (clo (stop_scrolling w)) = scrollContainer (clo w)"
  "scrollContainer (clo (carousel_update_scroll rnd w)) = scrollContainer (clo w)"
  "scrollContainer (clo (chips_update_scroll rnd w)) = scrollContainer (clo w)"
  "scrollContainer (clo (update_carousel_of_item w)) = scrollContainer (clo w)"
  "scrollContainer (clo (update_chips_of_item w)) = scrollContainer (clo w)"
  by (simp_all add: stmt_defs split: option.splits)

lemma classes_changed:
  "map classList (children (cont (clo (classList_add evt cls w))))
     = (map classList (children (cont (clo w))))
         [item evt := (if cls \<in> set (map classList (children (cont (clo w))) ! item evt)
                       then map classList (children (cont (clo w))) ! item evt
                       else map classList (children (cont (clo w))) ! item evt @ [cls])]"
  "map classList (children (cont (clo (classList_remove evt cls w))))
     = (map classList (children (cont (clo w))))
         [item evt := removeAll cls (map classList (children (cont (clo w))) ! item evt)]"
proof -
  have same: "(map classList cs)[i := classList (cs ! i)] = map classList cs" for cs :: "element list" and i
    by (cases "i < length cs") (simp_all add: list_update_same_conv list_update_beyond)
  show "map classList (children (cont (clo (classList_add evt cls w))))
     = (map classList (children (cont (clo w))))
         [item evt := (if cls \<in> set (map classList (children (cont (clo w))) ! item evt)
                       then map classList (children (cont (clo w))) ! item evt
                       else map classList (children (cont (clo w))) ! item evt @ [cls])]"
    by (cases "item evt < length (children (cont (clo w)))")
      (simp_all add: classList_add_def update_item_def map_update same list_update_beyond)
  show "map classList (children (cont (clo (classList_remove evt cls w))))
     = (map classList (children (cont (clo w))))
         [item evt := removeAll cls (map classList (children (cont (clo w))) ! item evt)]"
    by (cases "item evt < length (children (cont (clo w)))")
      (simp_all add: classList_remove_def update_item_def map_update list_update_beyond)
qed

subsection \<open>Facts about the session handlers\<close>


lemma push_ids_fold:
  "fold (\<lambda>wrapper newOrder.
           case read wrapper of
             None \<Rightarrow> newOrder
           | Some i \<Rightarrow> if i \<noteq> [] then newOrder @ [i] else newOrder) wrappers acc
     = acc @ concat (map (pushed read) wrappers)"
  by (induction wrappers arbitrary: acc) (auto simp: pushed_def split: option.splits)

lemma push_ids_concat: "push_ids read wrappers = concat (map (pushed read) wrappers)"
  by (simp add: push_ids_def push_ids_fold)

lemma concat_map_filter_if:
  "concat (map h (filter P xs)) = concat (map (\<lambda>e. if P e then h e else []) xs)"
  by (induction xs) simp_all

lemma carousel_order_view:
  "carousel_order c =
     concat (map (\<lambda>e. if ''entity-card-wrapper'' \<in> set (classList e) then pushed entity_id_of e else [])
               (children c))"
  by (simp add: carousel_order_def querySelectorAll_def push_ids_concat concat_map_filter_if)

lemma chips_order_view:
  "chips_order c =
     concat (map (\<lambda>e. if ''chip-wrapper'' \<in> set (classList e) then pushed chip_id_of e else [])
               (children c))"
  by (simp add: chips_order_def querySelectorAll_def push_ids_concat concat_map_filter_if)

lemma id_of_update [simp]:
  "entity_id_of (e\<lparr>classList := c\<rparr>) = entity_id_of e"
  "chip_id_of (e\<lparr>classList := c\<rparr>) = chip_id_of e"
  "entity_id_of (e\<lparr>entity_controls := v\<rparr>) = entity_id_of e"
  "chip_id_of (e\<lparr>entity_controls := v\<rparr>) = chip_id_of e"
  by (simp_all add: entity_id_of_def chip_id_of_def split: option.splits)

lemma pushed_classList [simp]:
  "pushed entity_id_of (e\<lparr>classList := c\<rparr>) = pushed entity_id_of e"
  "pushed chip_id_of (e\<lparr>classList := c\<rparr>) = pushed chip_id_of e"
  "pushed entity_id_of (e\<lparr>entity_controls := v\<rparr>) = pushed entity_id_of e"
  "pushed chip_id_of (e\<lparr>entity_controls := v\<rparr>) = pushed chip_id_of e"
  by (simp_all add: pushed_def)

lemma order_frame [simp]:
  "carousel_order (cont (clo (classList_add evt ''dragging'' w))) = carousel_order (cont (clo w))"
  "carousel_order (cont (clo (classList_remove evt ''dragging'' w))) = carousel_order (cont (clo w))"
  "carousel_order (cont (clo (set_controls_visibility v w))) = carousel_order (cont (clo w))"
  "chips_order (cont (clo (classList_add evt ''dragging'' w))) = chips_order (cont (clo w))"
  "chips_order (cont (clo (classList_remove evt ''dragging'' w))) = chips_order (cont (clo w))"
  "chips_order (cont (clo (set_controls_visibility v w))) = chips_order (cont (clo w))"
  by (simp_all add: carousel_order_view chips_order_view classList_add_def classList_remove_def
      set_controls_visibility_def update_item_map comp_def cong: if_cong)

lemma cont_frame [simp]:
  "cont (clo (set_isReordering b w)) = cont (clo w)"
  "cont (clo (read_start_position evt w)) = cont (clo w)"
  "cont (clo (read_move_position e w)) = cont (clo w)"
  "cont (clo (create_visual_for_item evt isChip w)) = cont (clo w)"
  "cont (clo (on_visual removeDragVisual w)) = cont (clo w)"
  "cont (clo (update_visual_to_last w)) = cont (clo w)"
  "cont (clo (addEventListener t w)) = cont (clo w)"
  "cont (clo (removeEventListener t w)) = cont (clo w)"
  "cont (clo (vibrate ms w)) = cont (clo w)"
  "cont (clo (set_userSelect v w)) = cont (clo w)"
  "cont (clo (reconnectSingleCameraManager evt w)) = cont (clo w)"
  "cont (clo (save_if_area w)) = cont (clo w)"
  "cont (clo (stop_scrolling w)) = cont (clo w)"
  "cont (clo (carousel_update_scroll rnd w)) = cont (clo w)"
  "cont (clo (chips_update_scroll rnd w)) = cont (clo w)"
  by (simp_all add: stmt_defs' split: option.splits)

lemma has_class_frame [simp]:
  "has_class c (cont (clo (classList_add evt cls w))) = has_class c (cont (clo w))"
  "has_class c (cont (clo (classList_remove evt cls w))) = has_class c (cont (clo w))"
  "has_class c (cont (clo (set_controls_visibility v w))) = has_class c (cont (clo w))"
  by (simp_all add: has_class_def)

lemma closest_carousel:
  "has_class ''carousel-grid'' (cont (clo w)) \<Longrightarrow> closest [''carousel-grid''] w = Some (cont (clo w))"
  by (simp add: closest_def)

lemma persisted_save_if_area:
  "persisted (proc (save_if_area w))
     = persisted (proc w) @ (if truthy (areaId (clo w)) then [SaveOrder (the (areaId (clo w)))] else [])"
  by (simp add: save_if_area_def persist_def truthy_def split: option.splits)

lemma persisted_update_carousel:
  "has_class ''carousel-grid'' (cont (clo w)) \<Longrightarrow>
   persisted (proc (update_carousel_of_item w))
     = persisted (proc w) @
       (if truthy (data_areaId (cont (clo w))) \<and> truthy (data_sectionType (cont (clo w)))
           \<and> customizationManager (mgr w)
        then [UpdateCarouselOrderWithContext (the (data_areaId (cont (clo w))))
                (the (data_sectionType (cont (clo w)))) (carousel_order (cont (clo w)))
                (context_name (mgr w))]
        else [])"
  by (simp add: update_carousel_of_item_def closest_carousel updateCarouselConfiguration_def persist_def)

lemma persisted_update_chips_none:
  "closest [''carousel-grid'', ''chips''] w = None \<Longrightarrow>
   persisted (proc (update_chips_of_item w)) = persisted (proc w)"
  by (simp add: update_chips_of_item_def)

lemma grid_onEnd_persisted:
  "persisted (proc (grid_onEnd evt w))
     = persisted (proc w) @ (if truthy (areaId (clo w)) then [SaveOrder (the (areaId (clo w)))] else [])"
  by (simp add: grid_onEnd_def run_def persisted_save_if_area)

lemma carousel_onEnd_persisted:
  "has_class ''carousel-grid'' (cont (clo w)) \<Longrightarrow>
   persisted (proc (carousel_onEnd evt w))
     = persisted (proc w) @
       (if truthy (data_areaId (cont (clo w))) \<and> truthy (data_sectionType (cont (clo w)))
           \<and> customizationManager (mgr w)
        then [UpdateCarouselOrderWithContext (the (data_areaId (cont (clo w))))
                (the (data_sectionType (cont (clo w)))) (carousel_order (cont (clo w)))
                (context_name (mgr w))]
        else [])"
  by (simp add: carousel_onEnd_def run_def persisted_update_carousel)

lemma onStart_onMove_persisted:
  "persisted (proc (grid_onStart evt w)) = persisted (proc w)"
  "persisted (proc (carousel_onStart evt w)) = persisted (proc w)"
  "persisted (proc (chips_onStart evt w)) = persisted (proc w)"
  "persisted (proc (grid_onMove e w)) = persisted (proc w)"
  "persisted (proc (carousel_onMove rnd e w)) = persisted (proc w)"
  "persisted (proc (chips_onMove rnd e w)) = persisted (proc w)"
  by (simp_all add: grid_onStart_def carousel_onStart_def chips_onStart_def grid_onMove_def
      carousel_onMove_def chips_onMove_def run_def)

lemma handlers_dom_order:
  "dom_order (grid_onStart evt w) = dom_order w"
  "dom_order (grid_onMove e w) = dom_order w"
  "dom_order (grid_onEnd evt w) = dom_order w"
  "dom_order (carousel_onStart evt w) = dom_order w"
  "dom_order (carousel_onMove rnd e w) = dom_order w"
  "dom_order (carousel_onEnd evt w) = dom_order w"
  "dom_order (chips_onStart evt w) = dom_order w"
  "dom_order (chips_onMove rnd e w) = dom_order w"
  "dom_order (chips_onEnd evt w) = dom_order w"
  by (simp_all add: grid_onStart_def carousel_onStart_def chips_onStart_def grid_onMove_def
      carousel_onMove_def chips_onMove_def grid_onEnd_def carousel_onEnd_def chips_onEnd_def run_def)

lemma listeners_removed [simp]:
  "set (document_listeners (proc (removeEventListener t w)))
     = set (document_listeners (proc w)) - {(t, onMove (clo w))}"
  by (simp add: removeEventListener_def)

lemma onEnd_listeners:
  "set (document_listeners (proc (grid_onEnd evt w)))
     = set (document_listeners (proc w)) - {(''mousemove'', onMove (clo w)), (''touchmove'', onMove (clo w))}"
  "set (document_listeners (proc (carousel_onEnd evt w)))
     = set (document_listeners (proc w)) - {(''mousemove'', onMove (clo w)), (''touchmove'', onMove (clo w))}"
  "set (document_listeners (proc (chips_onEnd evt w)))
     = set (document_listeners (proc w)) - {(''mousemove'', onMove (clo w)), (''touchmove'', onMove (clo w))}"
  by (auto simp add: grid_onEnd_def carousel_onEnd_def chips_onEnd_def run_def)

lemma visual_removed [simp]:
  "dragVisual (mgr (on_visual removeDragVisual w)) = None"
  "dragVisual (mgr w) = d \<Longrightarrow>
     list_all (\<lambda>n. Some (node n) \<noteq> d) (body (proc (on_visual removeDragVisual w)))"
  by (auto simp add: on_visual_def removeDragVisual_def list_all_iff split: option.splits)

lemma onEnd_visual:
  "dragVisual (mgr (grid_onEnd evt w)) = None"
  "list_all (\<lambda>n. Some (node n) \<noteq> dragVisual (mgr w)) (body (proc (grid_onEnd evt w)))"
  "dragVisual (mgr (carousel_onEnd evt w)) = None"
  "list_all (\<lambda>n. Some (node n) \<noteq> dragVisual (mgr w)) (body (proc (carousel_onEnd evt w)))"
  "dragVisual (mgr (chips_onEnd evt w)) = None"
  "list_all (\<lambda>n. Some (node n) \<noteq> dragVisual (mgr w)) (body (proc (chips_onEnd evt w)))"
  by (simp_all add: grid_onEnd_def carousel_onEnd_def chips_onEnd_def run_def)

lemma controls_all_map:
  "controls_all v w = list_all (list_all (\<lambda>ctrl. ctrl = v)) (map entity_controls (children (cont (clo w))))"
  by (simp add: controls_all_def list_all_iff)

lemma controls_set [simp]:
  "map entity_controls (children (cont (clo (set_controls_visibility v w))))
     = map (map (\<lambda>ctrl. v)) (map entity_controls (children (cont (clo w))))"
  by (simp add: set_controls_visibility_def)

lemma controls_all_const: "list_all (list_all (\<lambda>ctrl. ctrl = v)) (map (map (\<lambda>ctrl. v)) xss)"
  by (induction xss) (simp_all add: list_all_iff)

lemma handlers_isReordering:
  "isReordering (proc (grid_onStart evt w)) = True"
  "isReordering (proc (carousel_onStart evt w)) = True"
  "isReordering (proc (chips_onStart evt w)) = True"
  "isReordering (proc (grid_onEnd evt w)) = False"
  "isReordering (proc (chips_onEnd evt w)) = False"
  "isReordering (proc (carousel_onEnd evt w)) = isReordering (proc w)"
  by (simp_all add: grid_onStart_def carousel_onStart_def chips_onStart_def grid_onEnd_def
      carousel_onEnd_def chips_onEnd_def run_def set_isReordering_def)

lemma handlers_controls_map:
  "map entity_controls (children (cont (clo (grid_onStart evt w))))
     = map (map (\<lambda>ctrl. ''hidden'')) (map entity_controls (children (cont (clo w))))"
  "map entity_controls (children (cont (clo (grid_onEnd evt w))))
     = map (map (\<lambda>ctrl. [])) (map entity_controls (children (cont (clo w))))"
  "map entity_controls (children (cont (clo (carousel_onStart evt w))))
     = map (map (\<lambda>ctrl. ''hidden'')) (map entity_controls (children (cont (clo w))))"
  "map entity_controls (children (cont (clo (carousel_onEnd evt w))))
     = map (map (\<lambda>ctrl. [])) (map entity_controls (children (cont (clo w))))"
  "map entity_controls (children (cont (clo (chips_onStart evt w)))) = map entity_controls (children (cont (clo w)))"
  "map entity_controls (children (cont (clo (chips_onEnd evt w)))) = map entity_controls (children (cont (clo w)))"
  by (simp_all add: grid_onStart_def grid_onEnd_def carousel_onStart_def carousel_onEnd_def
      chips_onStart_def chips_onEnd_def run_def del: map_map)

lemma handlers_controls:
  "controls_all ''hidden'' (grid_onStart evt w)"
  "controls_all [] (grid_onEnd evt w)"
  "controls_all ''hidden'' (carousel_onStart evt w)"
  "controls_all [] (carousel_onEnd evt w)"
  by (simp_all add: controls_all_map handlers_controls_map controls_all_const del: map_map)

subsection \<open>What the end of a session tears down\<close>

lemma statement_effects [simp]:
  "userSelect (proc (set_userSelect v w)) = v"
  "vibrated (proc (vibrate ms w)) = vibrated (proc w) @ (if canVibrate (proc w) then [ms] else [])"
  "scroll (clo (stop_scrolling w)) = stopScrolling (scroll (clo w))"
  "body (proc (on_visual removeDragVisual w))
     = filter (\<lambda>n. Some (node n) \<noteq> dragVisual (mgr w)) (body (proc w))"
proof -
  show "userSelect (proc (set_userSelect v w)) = v"
    by (simp add: set_userSelect_def)
  show "vibrated (proc (vibrate ms w)) = vibrated (proc w) @ (if canVibrate (proc w) then [ms] else [])"
    by (simp add: vibrate_def)
  show "scroll (clo (stop_scrolling w)) = stopScrolling (scroll (clo w))"
    by (simp add: stop_scrolling_def)
  show "body (proc (on_visual removeDragVisual w))
     = filter (\<lambda>n. Some (node n) \<noteq> dragVisual (mgr w)) (body (proc w))"
  proof (cases "dragVisual (mgr w)")
    case None
    then show ?thesis by (simp add: on_visual_def removeDragVisual_def)
  next
    case (Some r)
    have e: "(\<lambda>n. Some (node n) \<noteq> Some r) = (\<lambda>n. node n \<noteq> r)"
      by auto
    have "filter (\<lambda>n. node n \<noteq> r) (body (proc w)) = body (proc w)" if "r \<notin> set (map node (body (proc w)))"
      using that by (auto simp: filter_id_conv)
    then show ?thesis
      using Some by (auto simp: on_visual_def removeDragVisual_def e)
  qed
qed

lemma reloaded_reconnect:
  assumes "item evt < length (children (cont (clo w)))"
  shows "reloaded (proc (reconnectSingleCameraManager evt w))
     = reloaded (proc w) @
       (if (case map home_card (children (cont (clo w))) ! item evt of
              None \<Rightarrow> False | Some appleHomeCard \<Rightarrow> reloadCameraImage appleHomeCard)
        then [item evt] else [])"
  using assms by (simp add: reconnectSingleCameraManager_def split: option.splits)

lemma stopScrolling_stops:
  "speed (stopScrolling v) = 0"
  "\<not> id_truthy (scrollAnimationId (stopScrolling v))"
  "cancelled (stopScrolling v)
     = cancelled v @ (case scrollAnimationId v of
                        None \<Rightarrow> [] | Some i \<Rightarrow> if i \<noteq> 0 then [i] else [])"
  by (simp_all add: stopScrolling_def id_truthy_def Let_def split: option.splits)

lemma onStart_classes:
  "map classList (children (cont (clo (grid_onStart evt w))))
     = (map classList (children (cont (clo w))))
         [item evt := (if ''dragging'' \<in> set (map classList (children (cont (clo w))) ! item evt)
                       then map classList (children (cont (clo w))) ! item evt
                       else map classList (children (cont (clo w))) ! item evt @ [''dragging''])]"
  "map classList (children (cont (clo (carousel_onStart evt w))))
     = (map classList (children (cont (clo w))))
         [item evt := (if ''dragging'' \<in> set (map classList (children (cont (clo w))) ! item evt)
                       then map classList (children (cont (clo w))) ! item evt
                       else map classList (children (cont (clo w))) ! item evt @ [''dragging''])]"
  "map classList (children (cont (clo (chips_onStart evt w))))
     = (map classList (children (cont (clo w))))
         [item evt := (if ''dragging'' \<in> set (map classList (children (cont (clo w))) ! item evt)
                       then map classList (children (cont (clo w))) ! item evt
                       else map classList (children (cont (clo w))) ! item evt @ [''dragging''])]"
  by (simp_all add: grid_onStart_def carousel_onStart_def chips_onStart_def run_def
      classes_changed(1) del: map_map)

lemma onEnd_classes:
  "map classList (children (cont (clo (grid_onEnd evt w))))
     = (map classList (children (cont (clo w))))
         [item evt := removeAll ''dragging'' (map classList (children (cont (clo w))) ! item evt)]"
  "map classList (children (cont (clo (carousel_onEnd evt w))))
     = (map classList (children (cont (clo w))))
         [item evt := removeAll ''dragging'' (map classList (children (cont (clo w))) ! item evt)]"
  "map classList (children (cont (clo (chips_onEnd evt w))))
     = (map classList (children (cont (clo w))))
         [item evt := removeAll ''dragging'' (map classList (children (cont (clo w))) ! item evt)]"
  by (simp_all add: grid_onEnd_def carousel_onEnd_def chips_onEnd_def run_def
      classes_changed(2) del: map_map)

lemma onEnd_userSelect:
  "userSelect (proc (grid_onEnd evt w)) = []"
  "userSelect (proc (carousel_onEnd evt w)) = []"
  "userSelect (proc (chips_onEnd evt w)) = []"
  by (simp_all add: grid_onEnd_def carousel_onEnd_def chips_onEnd_def run_def)

lemma onEnd_vibrated:
  "vibrated (proc (grid_onEnd evt w)) = vibrated (proc w) @ (if canVibrate (proc w) then [30] else [])"
  "vibrated (proc (carousel_onEnd evt w)) = vibrated (proc w) @ (if canVibrate (proc w) then [30] else [])"
  "vibrated (proc (chips_onEnd evt w)) = vibrated (proc w) @ (if canVibrate (proc w) then [30] else [])"
  by (simp_all add: grid_onEnd_def carousel_onEnd_def chips_onEnd_def run_def)

lemma onEnd_scroll:
  "scroll (clo (carousel_onEnd evt w)) = stopScrolling (scroll (clo w))"
  "scroll (clo (chips_onEnd evt w)) = stopScrolling (scroll (clo w))"
  by (simp_all add: carousel_onEnd_def chips_onEnd_def run_def)

lemma onEnd_body:
  "body (proc (grid_onEnd evt w))
     = filter (\<lambda>n. Some (node n) \<noteq> dragVisual (mgr w)) (body (proc w))"
  "body (proc (carousel_onEnd evt w))
     = filter (\<lambda>n. Some (node n) \<noteq> dragVisual (mgr w)) (body (proc w))"
  "body (proc (chips_onEnd evt w))
     = filter (\<lambda>n. Some (node n) \<noteq> dragVisual (mgr w)) (body (proc w))"
  by (simp_all add: grid_onEnd_def carousel_onEnd_def chips_onEnd_def run_def)

lemma onEnd_reloaded:
  assumes "item evt < length (children (cont (clo w)))"
  shows "reloaded (proc (grid_onEnd evt w))
     = reloaded (proc w) @
       (if (case map home_card (children (cont (clo w))) ! item evt of
              None \<Rightarrow> False | Some appleHomeCard \<Rightarrow> reloadCameraImage appleHomeCard)
        then [item evt] else [])"
    and "reloaded (proc (carousel_onEnd evt w))
     = reloaded (proc w) @
       (if (case map home_card (children (cont (clo w))) ! item evt of
              None \<Rightarrow> False | Some appleHomeCard \<Rightarrow> reloadCameraImage appleHomeCard)
        then [item evt] else [])"
  using assms
  by (simp_all add: grid_onEnd_def carousel_onEnd_def run_def reloaded_reconnect del: map_map)

subsection \<open>The container a drop leaves\<close>

lemma moved_map: "map f (moved from dest xs) = moved from dest (map f xs)"
  by (simp add: moved_def Let_def take_map drop_map)

lemma sortable_move_frame [simp]:
  "proc (sortable_move from dest w) = proc w"
  "mgr (sortable_move from dest w) = mgr w"
  "areaId (clo (sortable_move from dest w)) = areaId (clo w)"
  "onMove (clo (sortable_move from dest w)) = onMove (clo w)"
  "outer (clo (sortable_move from dest w)) = outer (clo w)"
  "scroll (clo (sortable_move from dest w)) = scroll (clo w)"
  "scrollContainer (clo (sortable_move from dest w)) = scrollContainer (clo w)"
  "container_classList (cont (clo (sortable_move from dest w))) = container_classList (cont (clo w))"
  "data_areaId (cont (clo (sortable_move from dest w))) = data_areaId (cont (clo w))"
  "data_sectionType (cont (clo (sortable_move from dest w))) = data_sectionType (cont (clo w))"
  "has_class c (cont (clo (sortable_move from dest w))) = has_class c (cont (clo w))"
  by (simp_all add: sortable_move_def has_class_def)

lemma sortable_move_children:
  "children (cont (clo (sortable_move from dest w))) = moved from dest (children (cont (clo w)))"
  by (simp add: sortable_move_def)

lemma onMove_scroll:
  "scroll (clo (carousel_onMove rnd e w))
     = carousel_updateScrollSpeed rnd (scrollContainer (clo w)) (fst (move_position e)) (scroll (clo w))"
  "scroll (clo (chips_onMove rnd e w))
     = chips_updateScrollSpeed rnd (scrollContainer (clo w)) (fst (move_position e)) (scroll (clo w))"
  by (simp_all add: carousel_onMove_def chips_onMove_def run_def read_move_position_def
      update_visual_to_last_def on_visual_def carousel_update_scroll_def chips_update_scroll_def)

lemma onMove_closure [simp]:
  "cont (clo (carousel_onMove rnd e w)) = cont (clo w)"
  "cont (clo (chips_onMove rnd e w)) = cont (clo w)"
  "outer (clo (carousel_onMove rnd e w)) = outer (clo w)"
  "outer (clo (chips_onMove rnd e w)) = outer (clo w)"
  "mgr (carousel_onMove rnd e w) = mgr (update_visual_to_last (read_move_position e w))"
  "mgr (chips_onMove rnd e w) = mgr (update_visual_to_last (read_move_position e w))"
  by (simp_all add: carousel_onMove_def chips_onMove_def run_def read_move_position_def
      update_visual_to_last_def on_visual_def carousel_update_scroll_def chips_update_scroll_def)

lemma onStart_closure [simp]:
  "scroll (clo (carousel_onStart evt w)) = scroll (clo w)"
  "scroll (clo (chips_onStart evt w)) = scroll (clo w)"
  "scrollContainer (clo (carousel_onStart evt w)) = scrollContainer (clo w)"
  "scrollContainer (clo (chips_onStart evt w)) = scrollContainer (clo w)"
  "outer (clo (carousel_onStart evt w)) = outer (clo w)"
  "outer (clo (chips_onStart evt w)) = outer (clo w)"
  "outer (clo (grid_onStart evt w)) = outer (clo w)"
  "areaId (clo (grid_onStart evt w)) = areaId (clo w)"
  "container_classList (cont (clo (grid_onStart evt w))) = container_classList (cont (clo w))"
  "container_classList (cont (clo (carousel_onStart evt w))) = container_classList (cont (clo w))"
  "container_classList (cont (clo (chips_onStart evt w))) = container_classList (cont (clo w))"
  "data_areaId (cont (clo (carousel_onStart evt w))) = data_areaId (cont (clo w))"
  "data_sectionType (cont (clo (carousel_onStart evt w))) = data_sectionType (cont (clo w))"
  "customizationManager (mgr (grid_onStart evt w)) = customizationManager (mgr w)"
  "customizationManager (mgr (carousel_onStart evt w)) = customizationManager (mgr w)"
  "customizationManager (mgr (chips_onStart evt w)) = customizationManager (mgr w)"
  by (simp_all add: grid_onStart_def carousel_onStart_def chips_onStart_def run_def)

lemma contribution_add:
  "map (\<lambda>e. if ''chip-wrapper'' \<in> set (classList e) then pushed chip_id_of e else [])
       (children (cont (clo (classList_add evt ''dragging'' w))))
     = map (\<lambda>e. if ''chip-wrapper'' \<in> set (classList e) then pushed chip_id_of e else [])
         (children (cont (clo w)))"
  by (simp add: classList_add_def update_item_map cong: if_cong)

subsection \<open>Facts about the edge auto-scroll\<close>









lemma interpolated_exact: "interpolated exact zone lo hi d = ramp zone lo hi d"
  by (simp add: interpolated_def exact_def ramp_def algebra_simps)


text \<open>The candidate speed by cases, and the speed an update leaves.\<close>

lemma carousel_newSpeed_cases:
  "carousel_newSpeed rnd sc x =
     (if in_left_zone rnd 100 sc x \<and> canScrollLeft sc
      then - interpolated rnd 100 3 15 (rnd (x - rect_left sc))
      else if in_right_zone rnd 100 sc x \<and> canScrollRight rnd sc
      then interpolated rnd 100 3 15 (rnd (rect_right sc - x))
      else 0)"
  by (simp add: carousel_newSpeed_def in_left_zone_def in_right_zone_def canScrollLeft_def
      canScrollRight_def interpolated_def Let_def)



























subsection \<open>The reordering flag\<close>

text \<open>
  Claim C3 at the three container kinds: a drag in a carousel, in a grid and in a chip
  row, each from \<^verbatim>\<open>onStart\<close> to \<^verbatim>\<open>onEnd\<close>. The grid and the chip row reset
  \<^verbatim>\<open>DragAndDropManager.isReordering\<close> when the session ends; the carousel's
  \<^verbatim>\<open>onEnd\<close> has no such assignment, and the flag is still set after it.
\<close>

theorem carousel_onEnd_leaves_isReordering:
  "isReordering (proc (carousel_onEnd (drag_event 0 1)
      (carousel_onStart (drag_event 0 0) (carousel_world (Some ''living_room'') (Some ''cameras'')))))
   \<and> \<not> isReordering (proc (grid_onEnd (drag_event 0 1)
      (grid_onStart (drag_event 0 0) (grid_world (Some ''living_room'')))))
   \<and> \<not> isReordering (proc (chips_onEnd (drag_event 2 0)
      (chips_onStart (drag_event 2 2) (chips_world [''chips-grid''] False))))"
  by (simp add: handlers_isReordering)

subsection \<open>Control visibility\<close>

text \<open>
  Claim C6. In a grid and in a carousel, when \<^verbatim>\<open>onStart\<close> has run every control of
  the container has the inline visibility \<^verbatim>\<open>hidden\<close>; when \<^verbatim>\<open>onEnd\<close> has run
  (whatever the sensing library did to the container in between) every control of the
  container has its inline visibility cleared, and the class \<^verbatim>\<open>dragging\<close> is taken
  off the dragged element, so that the rule of the injected style sheet that hides the
  controls of a dragging element no longer applies. In a chip row there is no control:
  the wrappers that \<^verbatim>\<open>AppleChips\<close> renders hold none and the handlers add none, so
  that there too every control of the container is hidden after \<^verbatim>\<open>onStart\<close> and
  shown after \<^verbatim>\<open>onEnd\<close>.
\<close>

theorem controls_hidden_during_drag:
  assumes "list_all (\<lambda>e. entity_controls e = []) (children (cont (clo wk)))"
  shows "controls_all ''hidden'' (grid_onStart evt w)
   \<and> controls_all [] (grid_onEnd evt w)
   \<and> map classList (children (cont (clo (grid_onEnd evt w))))
       = (map classList (children (cont (clo w))))
           [item evt := removeAll ''dragging'' (map classList (children (cont (clo w))) ! item evt)]
   \<and> controls_all ''hidden'' (carousel_onStart evt w)
   \<and> controls_all [] (carousel_onEnd evt w)
   \<and> map classList (children (cont (clo (carousel_onEnd evt w))))
       = (map classList (children (cont (clo w))))
           [item evt := removeAll ''dragging'' (map classList (children (cont (clo w))) ! item evt)]
   \<and> list_all (\<lambda>e. entity_controls e = []) (children (generateHTML_grid editMode rect chips))
   \<and> controls_all ''hidden'' (chips_onStart evt wk)
   \<and> controls_all [] (chips_onEnd evt wk)
   \<and> list_all (\<lambda>e. entity_controls e = []) (children (cont (clo (chips_onStart evt wk))))
   \<and> list_all (\<lambda>e. entity_controls e = []) (children (cont (clo (chips_onEnd evt wk))))"
proof -
  have none: "list_all (\<lambda>cs. cs = []) (map entity_controls (children (cont (clo wk))))"
    using assms by (simp add: list_all_iff)
  have r: "list_all (\<lambda>e. entity_controls e = []) (children (generateHTML_grid editMode rect chips))"
    by (simp add: generateHTML_grid_def generateHTML_wrapper_def list_all_iff)
  have k: "controls_all v (chips_onStart evt wk)" "controls_all v (chips_onEnd evt wk)" for v
    using none by (simp_all add: controls_all_map handlers_controls_map(5,6) list_all_iff del: map_map)
  have m: "list_all (\<lambda>e. entity_controls e = []) xs = list_all (\<lambda>cs. cs = []) (map entity_controls xs)"
    for xs :: "element list"
    by (simp add: list_all_iff)
  have s: "list_all (\<lambda>e. entity_controls e = []) (children (cont (clo (chips_onStart evt wk))))"
    "list_all (\<lambda>e. entity_controls e = []) (children (cont (clo (chips_onEnd evt wk))))"
    using none by (simp_all only: m handlers_controls_map(5,6))
  show ?thesis
    by (intro conjI handlers_controls onEnd_classes(1,2) r k s)
qed

text \<open>
  A grid of three cards, one control each: the first card is dragged to the end. The
  controls are hidden at the start and shown at the end, when no card carries the class
  \<^verbatim>\<open>dragging\<close>; and the rendered chip row, which has no control.
\<close>

theorem controls_hidden_during_drag_witness:
  "list_all (\<lambda>e. entity_controls e = []) (children (cont (clo rendered_chips_world)))
   \<and> map entity_controls (children (cont (clo (grid_onStart (drag_event 0 0) (grid_world (Some ''living_room''))))))
     = [[''hidden''], [''hidden''], [''hidden'']]
   \<and> map classList (children (cont (clo (grid_onStart (drag_event 0 0) (grid_world (Some ''living_room''))))))
     = [[''entity-card-wrapper'', ''dragging''], [''entity-card-wrapper''], [''entity-card-wrapper'']]
   \<and> map entity_controls (children (cont (clo (grid_onEnd (drag_event 0 2)
        (sortable_move 0 2 (grid_onStart (drag_event 0 0) (grid_world (Some ''living_room''))))))))
     = [[[]], [[]], [[]]]
   \<and> map classList (children (cont (clo (grid_onEnd (drag_event 0 2)
        (sortable_move 0 2 (grid_onStart (drag_event 0 0) (grid_world (Some ''living_room''))))))))
     = [[''entity-card-wrapper''], [''entity-card-wrapper''], [''entity-card-wrapper'']]
   \<and> controls_all ''hidden'' (chips_onStart (drag_event 2 2) rendered_chips_world)"
proof -
  let ?s = "grid_onStart (drag_event 0 0) (grid_world (Some ''living_room''))"
  have h: "list_all (\<lambda>e. entity_controls e = []) (children (cont (clo rendered_chips_world)))"
    by (simp add: rendered_chips_world_def setupChipsSortable_def generateHTML_grid_def
        generateHTML_wrapper_def)
  have c: "map classList (children (cont (clo (grid_world (Some ''living_room'')))))
      = [[''entity-card-wrapper''], [''entity-card-wrapper''], [''entity-card-wrapper'']]"
    "map entity_controls (children (cont (clo (grid_world (Some ''living_room''))))) = [[[]], [[]], [[]]]"
    by (simp_all add: grid_world_def setupGridSortable_def entity_wrapper_def)
  have i: "item (drag_event 0 0) = 0" "item (drag_event 0 2) = 2" "item (drag_event 2 2) = 2"
    by (simp_all add: drag_event_def)
  have s1: "map entity_controls (children (cont (clo ?s))) = [[''hidden''], [''hidden''], [''hidden'']]"
    by (simp add: handlers_controls_map c del: map_map)
  have s2: "map classList (children (cont (clo ?s)))
      = [[''entity-card-wrapper'', ''dragging''], [''entity-card-wrapper''], [''entity-card-wrapper'']]"
    by (simp add: onStart_classes i c)
  have "map entity_controls (children (cont (clo (sortable_move 0 2 ?s))))
      = moved 0 2 [[''hidden''], [''hidden''], [''hidden'']]"
    by (simp only: sortable_move_children moved_map s1)
  then have m1: "map entity_controls (children (cont (clo (sortable_move 0 2 ?s))))
      = [[''hidden''], [''hidden''], [''hidden'']]"
    by (simp add: moved_def)
  have "map classList (children (cont (clo (sortable_move 0 2 ?s))))
      = moved 0 2 [[''entity-card-wrapper'', ''dragging''], [''entity-card-wrapper''], [''entity-card-wrapper'']]"
    by (simp only: sortable_move_children moved_map s2)
  then have m2: "map classList (children (cont (clo (sortable_move 0 2 ?s))))
      = [[''entity-card-wrapper''], [''entity-card-wrapper''], [''entity-card-wrapper'', ''dragging'']]"
    by (simp add: moved_def)
  have e1: "map entity_controls (children (cont (clo (grid_onEnd (drag_event 0 2) (sortable_move 0 2 ?s)))))
      = [[[]], [[]], [[]]]"
    by (simp add: handlers_controls_map m1 del: map_map)
  have e2: "map classList (children (cont (clo (grid_onEnd (drag_event 0 2) (sortable_move 0 2 ?s)))))
      = [[''entity-card-wrapper''], [''entity-card-wrapper''], [''entity-card-wrapper'']]"
    using controls_hidden_during_drag [OF h, where evt = "drag_event 0 2" and w = "sortable_move 0 2 ?s"]
    by (simp add: i m2)
  have k: "controls_all ''hidden'' (chips_onStart (drag_event 2 2) rendered_chips_world)"
    using controls_hidden_during_drag [OF h, where evt = "drag_event 2 2"] by simp
  show ?thesis
    by (intro conjI h s1 s2 e1 e2 k)
qed

subsection \<open>Persistence at the end of a drag\<close>

text \<open>
  Claim C9. When the \<^verbatim>\<open>areaId\<close> a grid's closure read is missing (or empty), and
  when a carousel lacks \<^verbatim>\<open>data-area-id\<close> or \<^verbatim>\<open>data-section-type\<close>, the end
  of a drag still tears the visual state down: the manager's reference is cleared and the
  clone it referred to is taken out of the document (and nothing else is), the two pointer
  listeners of the closure are no longer registered, every control has its inline
  visibility cleared, the class \<^verbatim>\<open>dragging\<close> is taken off the dragged element and
  off no other, text selection is allowed again, the device vibrates if it can, the
  camera image of the dragged card is reloaded if it has one, the reordering flag of a
  grid is reset, and the auto-scroll of a carousel is stopped and its pending animation
  frame cancelled. The persistence log is what it was: no callback is invoked.
\<close>

theorem teardown_without_persistence:
  assumes "\<not> truthy (areaId (clo w))"
    and "has_class ''carousel-grid'' (cont (clo w'))"
    and "\<not> truthy (data_areaId (cont (clo w'))) \<or> \<not> truthy (data_sectionType (cont (clo w')))"
  shows "persisted (proc (grid_onEnd evt w)) = persisted (proc w)
     \<and> dragVisual (mgr (grid_onEnd evt w)) = None
     \<and> list_all (\<lambda>n. Some (node n) \<noteq> dragVisual (mgr w)) (body (proc (grid_onEnd evt w)))
     \<and> body (proc (grid_onEnd evt w))
         = filter (\<lambda>n. Some (node n) \<noteq> dragVisual (mgr w)) (body (proc w))
     \<and> (''mousemove'', onMove (clo w)) \<notin> set (document_listeners (proc (grid_onEnd evt w)))
     \<and> (''touchmove'', onMove (clo w)) \<notin> set (document_listeners (proc (grid_onEnd evt w)))
     \<and> controls_all [] (grid_onEnd evt w)
     \<and> map classList (children (cont (clo (grid_onEnd evt w))))
         = (map classList (children (cont (clo w))))
             [item evt := removeAll ''dragging'' (map classList (children (cont (clo w))) ! item evt)]
     \<and> userSelect (proc (grid_onEnd evt w)) = []
     \<and> vibrated (proc (grid_onEnd evt w))
         = vibrated (proc w) @ (if canVibrate (proc w) then [30] else [])
     \<and> \<not> isReordering (proc (grid_onEnd evt w))
     \<and> (item evt < length (children (cont (clo w))) \<longrightarrow>
          reloaded (proc (grid_onEnd evt w))
          = reloaded (proc w) @
            (if (case map home_card (children (cont (clo w))) ! item evt of
                   None \<Rightarrow> False | Some appleHomeCard \<Rightarrow> reloadCameraImage appleHomeCard)
             then [item evt] else []))
     \<and> persisted (proc (carousel_onEnd evt w')) = persisted (proc w')
     \<and> dragVisual (mgr (carousel_onEnd evt w')) = None
     \<and> list_all (\<lambda>n. Some (node n) \<noteq> dragVisual (mgr w')) (body (proc (carousel_onEnd evt w')))
     \<and> body (proc (carousel_onEnd evt w'))
         = filter (\<lambda>n. Some (node n) \<noteq> dragVisual (mgr w')) (body (proc w'))
     \<and> (''mousemove'', onMove (clo w')) \<notin> set (document_listeners (proc (carousel_onEnd evt w')))
     \<and> (''touchmove'', onMove (clo w')) \<notin> set (document_listeners (proc (carousel_onEnd evt w')))
     \<and> controls_all [] (carousel_onEnd evt w')
     \<and> map classList (children (cont (clo (carousel_onEnd evt w'))))
         = (map classList (children (cont (clo w'))))
             [item evt := removeAll ''dragging'' (map classList (children (cont (clo w'))) ! item evt)]
     \<and> userSelect (proc (carousel_onEnd evt w')) = []
     \<and> vibrated (proc (carousel_onEnd evt w'))
         = vibrated (proc w') @ (if canVibrate (proc w') then [30] else [])
     \<and> (item evt < length (children (cont (clo w'))) \<longrightarrow>
          reloaded (proc (carousel_onEnd evt w'))
          = reloaded (proc w') @
            (if (case map home_card (children (cont (clo w'))) ! item evt of
                   None \<Rightarrow> False | Some appleHomeCard \<Rightarrow> reloadCameraImage appleHomeCard)
             then [item evt] else []))
     \<and> speed (scroll (clo (carousel_onEnd evt w'))) = 0
     \<and> \<not> id_truthy (scrollAnimationId (scroll (clo (carousel_onEnd evt w'))))
     \<and> cancelled (scroll (clo (carousel_onEnd evt w')))
         = cancelled (scroll (clo w')) @
           (case scrollAnimationId (scroll (clo w')) of
              None \<Rightarrow> [] | Some i \<Rightarrow> if i \<noteq> 0 then [i] else [])"
proof -
  have g: "persisted (proc (grid_onEnd evt w)) = persisted (proc w)"
    using assms(1) by (simp add: grid_onEnd_persisted)
  have c: "persisted (proc (carousel_onEnd evt w')) = persisted (proc w')"
    using assms(3) by (auto simp: carousel_onEnd_persisted [OF assms(2)])
  have l: "(''mousemove'', onMove (clo v)) \<notin> set (document_listeners (proc (grid_onEnd evt v)))"
    "(''touchmove'', onMove (clo v)) \<notin> set (document_listeners (proc (grid_onEnd evt v)))"
    "(''mousemove'', onMove (clo v)) \<notin> set (document_listeners (proc (carousel_onEnd evt v)))"
    "(''touchmove'', onMove (clo v)) \<notin> set (document_listeners (proc (carousel_onEnd evt v)))" for v
    by (simp_all add: onEnd_listeners)
  have r: "\<not> isReordering (proc (grid_onEnd evt w))"
    by (simp add: handlers_isReordering)
  have s: "speed (scroll (clo (carousel_onEnd evt w'))) = 0"
    "\<not> id_truthy (scrollAnimationId (scroll (clo (carousel_onEnd evt w'))))"
    "cancelled (scroll (clo (carousel_onEnd evt w')))
         = cancelled (scroll (clo w')) @
           (case scrollAnimationId (scroll (clo w')) of
              None \<Rightarrow> [] | Some i \<Rightarrow> if i \<noteq> 0 then [i] else [])"
    by (simp_all only: onEnd_scroll stopScrolling_stops not_False_eq_True)
  have k: "item evt < length (children (cont (clo w))) \<longrightarrow>
          reloaded (proc (grid_onEnd evt w))
          = reloaded (proc w) @
            (if (case map home_card (children (cont (clo w))) ! item evt of
                   None \<Rightarrow> False | Some appleHomeCard \<Rightarrow> reloadCameraImage appleHomeCard)
             then [item evt] else [])"
    "item evt < length (children (cont (clo w'))) \<longrightarrow>
          reloaded (proc (carousel_onEnd evt w'))
          = reloaded (proc w') @
            (if (case map home_card (children (cont (clo w'))) ! item evt of
                   None \<Rightarrow> False | Some appleHomeCard \<Rightarrow> reloadCameraImage appleHomeCard)
             then [item evt] else [])"
    using onEnd_reloaded(1) [of evt w] onEnd_reloaded(2) [of evt w'] by blast+
  show ?thesis
    by (intro conjI g c l r s k onEnd_visual onEnd_body onEnd_classes(1,2) onEnd_userSelect
        onEnd_vibrated handlers_controls)
qed

text \<open>
  A grid without \<^verbatim>\<open>data-area-id\<close> whose first card is dragged to the end, and a
  carousel without \<^verbatim>\<open>data-section-type\<close> whose first card is dragged over the left
  edge zone, which starts the auto-scroll, and dropped behind the second.
\<close>

theorem teardown_without_persistence_witness:
  "\<not> truthy (areaId (clo (sortable_move 0 2 (grid_onStart (drag_event 0 0) (grid_world None)))))
   \<and> has_class ''carousel-grid''
        (cont (clo (sortable_move 0 1 (carousel_onMove exact (MouseMove 50 300)
           (carousel_onStart (drag_event 0 0) (carousel_world (Some ''living_room'') None))))))
   \<and> \<not> truthy (data_sectionType
        (cont (clo (sortable_move 0 1 (carousel_onMove exact (MouseMove 50 300)
           (carousel_onStart (drag_event 0 0) (carousel_world (Some ''living_room'') None)))))))
   \<and> persisted (proc (grid_onEnd (drag_event 0 2)
        (sortable_move 0 2 (grid_onStart (drag_event 0 0) (grid_world None))))) = []
   \<and> dragVisual (mgr (grid_onEnd (drag_event 0 2)
        (sortable_move 0 2 (grid_onStart (drag_event 0 0) (grid_world None))))) = None
   \<and> body (proc (grid_onEnd (drag_event 0 2)
        (sortable_move 0 2 (grid_onStart (drag_event 0 0) (grid_world None))))) = []
   \<and> map classList (children (cont (clo (grid_onEnd (drag_event 0 2)
        (sortable_move 0 2 (grid_onStart (drag_event 0 0) (grid_world None)))))))
       = [[''entity-card-wrapper''], [''entity-card-wrapper''], [''entity-card-wrapper'']]
   \<and> userSelect (proc (grid_onEnd (drag_event 0 2)
        (sortable_move 0 2 (grid_onStart (drag_event 0 0) (grid_world None))))) = []
   \<and> speed (scroll (clo (sortable_move 0 1 (carousel_onMove exact (MouseMove 50 300)
        (carousel_onStart (drag_event 0 0) (carousel_world (Some ''living_room'') None)))))) = - 9
   \<and> speed (scroll (clo (carousel_onEnd (drag_event 0 1)
        (sortable_move 0 1 (carousel_onMove exact (MouseMove 50 300)
           (carousel_onStart (drag_event 0 0) (carousel_world (Some ''living_room'') None))))))) = 0
   \<and> cancelled (scroll (clo (carousel_onEnd (drag_event 0 1)
        (sortable_move 0 1 (carousel_onMove exact (MouseMove 50 300)
           (carousel_onStart (drag_event 0 0) (carousel_world (Some ''living_room'') None))))))) = [1]
   \<and> persisted (proc (carousel_onEnd (drag_event 0 1)
        (sortable_move 0 1 (carousel_onMove exact (MouseMove 50 300)
           (carousel_onStart (drag_event 0 0) (carousel_world (Some ''living_room'') None)))))) = []"
proof -
  let ?g = "sortable_move 0 2 (grid_onStart (drag_event 0 0) (grid_world None))"
  let ?c = "sortable_move 0 1 (carousel_onMove exact (MouseMove 50 300)
       (carousel_onStart (drag_event 0 0) (carousel_world (Some ''living_room'') None)))"
  have h1: "\<not> truthy (areaId (clo ?g))"
    by (simp add: grid_world_def setupGridSortable_def truthy_def)
  have h2: "has_class ''carousel-grid'' (cont (clo ?c))"
    by (simp add: has_class_def carousel_world_def setupCarouselSortable_def)
  have h3: "\<not> truthy (data_sectionType (cont (clo ?c)))"
    by (simp add: carousel_world_def setupCarouselSortable_def truthy_def)
  have h3': "\<not> truthy (data_areaId (cont (clo ?c))) \<or> \<not> truthy (data_sectionType (cont (clo ?c)))"
    using h3 by simp
  have p0: "persisted (proc ?g) = []" "persisted (proc ?c) = []"
    by (simp_all add: onStart_onMove_persisted grid_world_def carousel_world_def constructor_def
        injectGlobalStyles_def fresh_process_def)
  have i: "item (drag_event 0 0) = 0" "item (drag_event 0 2) = 2" "item (drag_event 0 1) = 1"
    by (simp_all add: drag_event_def)
  have c0: "map classList (children (cont (clo (grid_onStart (drag_event 0 0) (grid_world None)))))
      = [[''entity-card-wrapper'', ''dragging''], [''entity-card-wrapper''], [''entity-card-wrapper'']]"
    by (simp add: onStart_classes i grid_world_def setupGridSortable_def entity_wrapper_def)
  have "map classList (children (cont (clo ?g)))
      = moved 0 2 [[''entity-card-wrapper'', ''dragging''], [''entity-card-wrapper''], [''entity-card-wrapper'']]"
    by (simp only: sortable_move_children moved_map c0)
  then have cl: "map classList (children (cont (clo ?g)))
      = [[''entity-card-wrapper''], [''entity-card-wrapper''], [''entity-card-wrapper'', ''dragging'']]"
    by (simp add: moved_def)
  have b: "filter (\<lambda>n. Some (node n) \<noteq> dragVisual (mgr ?g)) (body (proc ?g)) = []"
    by (simp add: grid_onStart_def run_def stmt_defs createDragVisual_def removeDragVisual_def
        grid_world_def setupGridSortable_def constructor_def injectGlobalStyles_def fresh_process_def)
  have z: "in_left_zone exact 100 wide_scroller 50" "canScrollLeft wide_scroller"
    by (simp_all add: in_left_zone_def canScrollLeft_def wide_scroller_def exact_def)
  have e: "rect_left wide_scroller = 0"
    by (simp add: wide_scroller_def)
  have n: "carousel_updateScrollSpeed exact (Some wide_scroller) 50 idle_scroll
      = \<lparr>speed = - 9, scrollAnimationId = Some 1, requested = 1, cancelled = []\<rparr>"
    by (simp add: carousel_updateScrollSpeed_def carousel_newSpeed_cases z interpolated_exact ramp_def
        idle_scroll_def requestAnimationFrame_def e Let_def)
      (simp add: exact_def)
  have "scroll (clo ?c) = carousel_updateScrollSpeed exact (Some wide_scroller) 50 idle_scroll"
    by (simp add: onMove_scroll move_position_def carousel_world_def setupCarouselSortable_def)
  then have sc: "scroll (clo ?c) = \<lparr>speed = - 9, scrollAnimationId = Some 1, requested = 1, cancelled = []\<rparr>"
    by (simp only: n)
  show ?thesis
    using h1 h2 h3 p0 cl b sc
      teardown_without_persistence [OF h1 h2 h3', of "drag_event 0 2"]
      teardown_without_persistence [OF h1 h2 h3', of "drag_event 0 1"]
    by (simp add: i)
qed

subsection \<open>The chip row\<close>

lemma closest_None:
  "closest classes w = None \<longleftrightarrow>
     list_all (\<lambda>c. \<not> list_all (\<lambda>cls. has_class cls c) classes) (cont (clo w) # outer (clo w))"
  by (auto simp: closest_def find_None_iff list_all_iff)

lemma chips_onEnd_unmatched:
  assumes "closest [''carousel-grid'', ''chips''] w = None"
  shows "persisted (proc (chips_onEnd evt w)) = persisted (proc w)"
proof -
  let ?w = "vibrate 30 (set_userSelect [] (removeEventListener ''touchmove''
      (removeEventListener ''mousemove'' (on_visual removeDragVisual (stop_scrolling
        (classList_remove evt ''dragging'' (set_isReordering False w)))))))"
  have "closest [''carousel-grid'', ''chips''] ?w = None"
    using assms by (simp add: closest_None)
  then have "persisted (proc (update_chips_of_item ?w)) = persisted (proc ?w)"
    by (rule persisted_update_chips_none)
  then show ?thesis
    by (simp add: chips_onEnd_def run_def)
qed

text \<open>
  Claim C1 fails for the chip row, by a slip of the source. \<^verbatim>\<open>enableChipsCarousel\<close>
  attaches the session to the element it finds with \<^verbatim>\<open>.chips-grid\<close>, and at the end
  of a drag \<^verbatim>\<open>onEnd\<close> looks for the grid with \<^verbatim>\<open>.carousel-grid.chips\<close>. The
  grid that \<^verbatim>\<open>AppleChips.generateHTML\<close> renders has the class \<^verbatim>\<open>chips-grid\<close>
  alone, and neither of the two elements rendered around it matches; so when no ancestor
  of the host matches either, the end of a drag in the chip row invokes no persistence
  callback, although \<^verbatim>\<open>updateChipsOrder\<close>, had it been given the grid, would have
  saved the order of the chips.
\<close>

theorem rendered_chip_row_not_persisted:
  assumes "list_all (\<lambda>c. \<not> (has_class ''carousel-grid'' c \<and> has_class ''chips'' c)) host"
    and "container_classList (cont (clo w)) = container_classList (generateHTML_grid editMode rect chips)"
    and "outer (clo w) = generateHTML_ancestors rtl chips @ host"
    and "customizationManager (mgr w)"
  shows "persisted (proc (chips_onEnd evt w)) = persisted (proc w)
     \<and> persisted (proc (updateChipsOrder (cont (clo w)) w))
         = persisted (proc w) @ [SaveChipsOrder (chips_order (cont (clo w)))]"
proof -
  have "closest [''carousel-grid'', ''chips''] w = None"
    using assms(1,2,3)
    by (simp add: closest_None generateHTML_grid_def generateHTML_ancestors_def has_class_def list_all_iff)
  then have "persisted (proc (chips_onEnd evt w)) = persisted (proc w)"
    by (rule chips_onEnd_unmatched)
  moreover have "persisted (proc (updateChipsOrder (cont (clo w)) w))
         = persisted (proc w) @ [SaveChipsOrder (chips_order (cont (clo w)))]"
    using assms(4) by (simp add: updateChipsOrder_def persist_def)
  ultimately show ?thesis by simp
qed

text \<open>
  The chips climate, lights and security as rendered; security is dragged to the front
  and dropped. The order of the row is then security, climate, lights, the manager has a
  customization manager, and nothing is saved.
\<close>

theorem rendered_chip_row_not_persisted_witness:
  "list_all (\<lambda>c. \<not> (has_class ''carousel-grid'' c \<and> has_class ''chips'' c)) chips_host
   \<and> customizationManager (mgr (sortable_move 2 0 (chips_onStart (drag_event 2 2) rendered_chips_world)))
   \<and> chips_order (cont (clo (sortable_move 2 0 (chips_onStart (drag_event 2 2) rendered_chips_world))))
       = [''security'', ''climate'', ''lights'']
   \<and> oldIndex (drag_event 2 0) = 2 \<and> newIndex (drag_event 2 0) = 0
   \<and> persisted (proc (chips_onEnd (drag_event 2 0)
        (sortable_move 2 0 (chips_onStart (drag_event 2 2) rendered_chips_world)))) = []"
proof -
  let ?w = "sortable_move 2 0 (chips_onStart (drag_event 2 2) rendered_chips_world)"
  let ?chips = "[chip_of ''climate'', chip_of ''lights'', chip_of ''security'']"
  have h: "list_all (\<lambda>c. \<not> (has_class ''carousel-grid'' c \<and> has_class ''chips'' c)) chips_host"
    by (simp add: chips_host_def has_class_def)
  have c: "container_classList (cont (clo ?w)) = container_classList (generateHTML_grid True (120, 40) ?chips)"
    and a: "outer (clo ?w) = generateHTML_ancestors False ?chips @ chips_host"
    and m: "customizationManager (mgr ?w)"
    by (simp_all add: rendered_chips_world_def setupChipsSortable_def constructor_def)
  have p: "persisted (proc ?w) = []"
    by (simp add: onStart_onMove_persisted rendered_chips_world_def constructor_def
        injectGlobalStyles_def fresh_process_def)
  have v: "map (\<lambda>e. if ''chip-wrapper'' \<in> set (classList e) then pushed chip_id_of e else [])
       (children (cont (clo (chips_onStart (drag_event 2 2) rendered_chips_world))))
     = [[''climate''], [''lights''], [''security'']]"
    by (simp add: chips_onStart_def run_def contribution_add rendered_chips_world_def
        setupChipsSortable_def generateHTML_grid_def generateHTML_wrapper_def chip_of_def
        pushed_def chip_id_of_def js_or_def truthy_def)
  have "chips_order (cont (clo ?w)) = concat (moved 2 0 [[''climate''], [''lights''], [''security'']])"
    by (simp only: chips_order_view sortable_move_children moved_map v)
  then have oc: "chips_order (cont (clo ?w)) = [''security'', ''climate'', ''lights'']"
    by (simp add: moved_def)
  show ?thesis
    using h m oc p rendered_chip_row_not_persisted [OF h c a m, of "drag_event 2 0"]
    by (simp add: drag_event_def)
qed

subsection \<open>Cancelled drags\<close>

lemma stmt_ignores_indices:
  "classList_add (evt\<lparr>oldIndex := i, newIndex := j\<rparr>) cls = classList_add evt cls"
  "classList_remove (evt\<lparr>oldIndex := i, newIndex := j\<rparr>) cls = classList_remove evt cls"
  "reconnectSingleCameraManager (evt\<lparr>oldIndex := i, newIndex := j\<rparr>) = reconnectSingleCameraManager evt"
  by (simp_all add: classList_add_def classList_remove_def reconnectSingleCameraManager_def fun_eq_iff
      split: option.splits)

lemma onEnd_ignores_indices:
  "grid_onEnd (evt\<lparr>oldIndex := i, newIndex := j\<rparr>) = grid_onEnd evt"
  "carousel_onEnd (evt\<lparr>oldIndex := i, newIndex := j\<rparr>) = carousel_onEnd evt"
  "chips_onEnd (evt\<lparr>oldIndex := i, newIndex := j\<rparr>) = chips_onEnd evt"
  by (simp_all add: grid_onEnd_def carousel_onEnd_def chips_onEnd_def stmt_ignores_indices)

text \<open>
  Claim C2, as amended. The handlers do not tell a cancelled drag from a drop:
  \<^verbatim>\<open>onEnd\<close> is the only handler registered for the end of a session and it takes no
  account of where the item was before and after the drag, so it invokes the persistence
  callback after a cancelled drag under the same conditions as after a drop. Before the
  session ends nothing is persisted: \<^verbatim>\<open>onStart\<close> and the pointer-move listener leave
  the persistence log as it was. And no handler of the engine changes the order of the
  elements of the container: a drag in which the sensing library moved nothing leaves the
  order it had before the drag started.
\<close>

theorem cancelled_drag_handled_as_drop:
  "grid_onEnd (evt\<lparr>oldIndex := i, newIndex := j\<rparr>) w = grid_onEnd evt w
   \<and> carousel_onEnd (evt\<lparr>oldIndex := i, newIndex := j\<rparr>) w = carousel_onEnd evt w
   \<and> chips_onEnd (evt\<lparr>oldIndex := i, newIndex := j\<rparr>) w = chips_onEnd evt w
   \<and> persisted (proc (grid_onStart evt w)) = persisted (proc w)
   \<and> persisted (proc (grid_onMove e w)) = persisted (proc w)
   \<and> persisted (proc (carousel_onStart evt w)) = persisted (proc w)
   \<and> persisted (proc (carousel_onMove rnd e w)) = persisted (proc w)
   \<and> persisted (proc (chips_onStart evt w)) = persisted (proc w)
   \<and> persisted (proc (chips_onMove rnd e w)) = persisted (proc w)
   \<and> dom_order (grid_onStart evt w) = dom_order w
   \<and> dom_order (grid_onMove e w) = dom_order w
   \<and> dom_order (grid_onEnd evt w) = dom_order w
   \<and> dom_order (carousel_onStart evt w) = dom_order w
   \<and> dom_order (carousel_onMove rnd e w) = dom_order w
   \<and> dom_order (carousel_onEnd evt w) = dom_order w
   \<and> dom_order (chips_onStart evt w) = dom_order w
   \<and> dom_order (chips_onMove rnd e w) = dom_order w
   \<and> dom_order (chips_onEnd evt w) = dom_order w"
  by (simp add: onEnd_ignores_indices onStart_onMove_persisted handlers_dom_order)

text \<open>The living-room grid, with the second card picked up and put back.\<close>

theorem cancelled_drag_handled_as_drop_witness:
  "grid_onEnd ((drag_event 1 1)\<lparr>oldIndex := 0, newIndex := 2\<rparr>) (grid_world (Some ''living_room''))
     = grid_onEnd (drag_event 1 1) (grid_world (Some ''living_room''))
   \<and> persisted (proc (grid_onStart (drag_event 1 1) (grid_world (Some ''living_room'')))) = []
   \<and> dom_order (grid_onEnd (drag_event 1 1) (grid_world (Some ''living_room'')))
     = [(None, Some ''light.a''), (None, Some ''light.b''), (None, Some ''light.c'')]"
  using cancelled_drag_handled_as_drop [where evt = "drag_event 1 1" and i = 0 and j = 2
      and w = "grid_world (Some ''living_room'')"]
  by (simp add: dom_order_def grid_world_def setupGridSortable_def entity_wrapper_def constructor_def
      injectGlobalStyles_def fresh_process_def)

text \<open>
  Claim C2 as stated fails: the second card of the living-room grid is picked up and
  released where it was, the order of the grid is the one before the drag, and the host's
  callback is invoked all the same.
\<close>

theorem cancelled_drag_is_persisted:
  "oldIndex (drag_event 1 1) = newIndex (drag_event 1 1)
   \<and> dom_order (grid_onEnd (drag_event 1 1) (grid_onStart (drag_event 1 1) (grid_world (Some ''living_room''))))
       = dom_order (grid_world (Some ''living_room''))
   \<and> persisted (proc (grid_onEnd (drag_event 1 1) (grid_onStart (drag_event 1 1) (grid_world (Some ''living_room'')))))
       = [SaveOrder ''living_room'']"
  by (simp add: drag_event_def handlers_dom_order grid_onEnd_persisted onStart_onMove_persisted
      grid_onStart_def run_def grid_world_def setupGridSortable_def truthy_def constructor_def
      injectGlobalStyles_def fresh_process_def)

end
